theory Spec2Isabelle
  imports Main "HOL-Library.Word"
begin

section \<open>Values of the host language\<close>

text \<open>
  The wrapper in \<^verbatim>\<open>flet_mqtt_client.py\<close> is Python. A byte is an 8-bit word and a
  \<^verbatim>\<open>bytes\<close> object a list of them. The text of a payload, which \<^verbatim>\<open>json.dumps\<close>
  escapes by code point and \<^verbatim>\<open>bytes.decode()\<close> produces, is a list of Unicode code
  points; \<open>str\<close> reads a literal as such a text. Host names, topics and the details of
  exceptions, which the wrapper only passes on, are \<open>string\<close>s.
\<close>

type_synonym byte = "8 word"

type_synonym unicode = "nat list"

definition str :: "string \<Rightarrow> unicode" where
  "str cs = map of_char cs"

text \<open>
  The exceptions of the model are the classes derived from \<^verbatim>\<open>Exception\<close> that the
  collaborators raise; the argument is the error detail. \<^verbatim>\<open>socket.error\<close> is an alias
  of \<^verbatim>\<open>OSError\<close>, and \<^verbatim>\<open>socket.gaierror\<close>, \<^verbatim>\<open>ConnectionRefusedError\<close> and
  \<^verbatim>\<open>socket.timeout\<close> are subclasses of it.
\<close>

datatype exn =
    OSError string
  | ValueError string
  | TypeError string
  | UnicodeDecodeError
  | RecursionError
  | RuntimeError string

fun is_OSError :: "exn \<Rightarrow> bool" where
  "is_OSError (OSError d) = True"
| "is_OSError e = False"

text \<open>
  A \<^verbatim>\<open>float\<close> stands by the text \<^verbatim>\<open>float.__repr__\<close> gives for it when it is finite;
  the three others have no such text in JSON.
\<close>

datatype pyfloat = Finite string | NaN | PosInf | NegInf

text \<open>
  The payload argument of \<^verbatim>\<open>publish\<close> has type \<^verbatim>\<open>Any\<close>. A \<open>PDict\<close> is an instance
  of \<^verbatim>\<open>dict\<close> (in insertion order) and a \<open>PList\<close> an instance of \<^verbatim>\<open>list\<close>, their
  subclasses included. A \<open>PTuple\<close> is an instance of \<^verbatim>\<open>tuple\<close>. A \<open>PObject\<close> is any
  other object, given by the name of its type: a \<^verbatim>\<open>set\<close>, a \<^verbatim>\<open>deque\<close>, a mapping
  that is not a dictionary such as a \<^verbatim>\<open>mappingproxy\<close>. The keys of a dictionary are
  hashable values.
\<close>

datatype pykey =
    KNone
  | KBool bool
  | KInt int
  | KFloat pyfloat
  | KStr unicode
  | KBytes "byte list"
  | KTuple "pykey list"
  | KObject string

datatype pyval =
    PNone
  | PBool bool
  | PInt int
  | PFloat pyfloat
  | PStr unicode
  | PBytes "byte list"
  | PList "pyval list"
  | PTuple "pyval list"
  | PDict "(pykey \<times> pyval) list"
  | PObject string

subsection \<open>The builtin \<^verbatim>\<open>bytes.decode()\<close>: strict UTF-8\<close>

definition between :: "byte \<Rightarrow> byte \<Rightarrow> byte \<Rightarrow> bool" where
  "between lo hi b = (lo \<le> b \<and> b \<le> hi)"

definition cont :: "byte \<Rightarrow> bool" where
  "cont b = between 0x80 0xBF b"

text \<open>
  The well-formed byte sequences of UTF-8: no overlong form (no lead byte C0 or C1,
  A0 at least after E0, 90 at least after F0), no surrogate (9F at most after ED),
  nothing above U+10FFFF (lead byte F4 at most, and 8F at most after it). \<open>None\<close> is
  \<^verbatim>\<open>UnicodeDecodeError\<close>.
\<close>

fun utf8_decode :: "byte list \<Rightarrow> nat list option" where
  "utf8_decode [] = Some []"
| "utf8_decode (b0 # bs) =
     (if b0 < 0x80 then map_option ((#) (unat b0)) (utf8_decode bs)
      else if 0xC2 \<le> b0 \<and> b0 \<le> 0xDF then
        (case bs of
           b1 # r \<Rightarrow>
             if cont b1
             then map_option ((#) (unat b0 mod 32 * 64 + unat b1 mod 64)) (utf8_decode r)
             else None
         | _ \<Rightarrow> None)
      else if 0xE0 \<le> b0 \<and> b0 \<le> 0xEF then
        (case bs of
           b1 # b2 # r \<Rightarrow>
             if between (if b0 = 0xE0 then 0xA0 else 0x80) (if b0 = 0xED then 0x9F else 0xBF) b1
                \<and> cont b2
             then map_option
                    ((#) (unat b0 mod 16 * 4096 + unat b1 mod 64 * 64 + unat b2 mod 64))
                    (utf8_decode r)
             else None
         | _ \<Rightarrow> None)
      else if 0xF0 \<le> b0 \<and> b0 \<le> 0xF4 then
        (case bs of
           b1 # b2 # b3 # r \<Rightarrow>
             if between (if b0 = 0xF0 then 0x90 else 0x80) (if b0 = 0xF4 then 0x8F else 0xBF) b1
                \<and> cont b2 \<and> cont b3
             then map_option
                    ((#) (unat b0 mod 8 * 262144 + unat b1 mod 64 * 4096
                          + unat b2 mod 64 * 64 + unat b3 mod 64))
                    (utf8_decode r)
             else None
         | _ \<Rightarrow> None)
      else None)"

subsection \<open>The standard library's \<^verbatim>\<open>json.dumps\<close> with its default arguments\<close>

definition digit_char :: "nat \<Rightarrow> char" where
  "digit_char d = char_of (48 + d)"

function show_nat :: "nat \<Rightarrow> string" where
  "show_nat n = (if n < 10 then [digit_char n] else show_nat (n div 10) @ [digit_char (n mod 10)])"
  by pat_completeness auto
termination
  by (relation "measure id") auto

declare show_nat.simps [simp del]

definition show_int :: "int \<Rightarrow> string" where
  "show_int i = (if i < 0 then CHR ''-'' # show_nat (nat (- i)) else show_nat (nat i))"

text \<open>
  \<^verbatim>\<open>int.__repr__\<close>, which the encoder calls for an integer: the interpreter refuses
  to convert an integer of more decimal digits than \<^verbatim>\<open>sys.get_int_max_str_digits()\<close>,
  4300 unless it was changed.
\<close>

definition int_max_str_digits :: nat where
  "int_max_str_digits = 4300"

definition digits_limit_message :: string where
  "digits_limit_message =
     ''Exceeds the limit (4300 digits) for integer string conversion; use sys.set_int_max_str_digits() to increase the limit''"

definition int_repr :: "int \<Rightarrow> exn + string" where
  "int_repr i =
     (if int_max_str_digits < length (show_nat (nat \<bar>i\<bar>))
      then Inl (ValueError digits_limit_message)
      else Inr (show_int i))"

text \<open>\<^verbatim>\<open>allow_nan\<close> is on: the floats that are not finite are written by their names.\<close>

definition float_repr :: "pyfloat \<Rightarrow> string" where
  "float_repr f =
     (case f of
        Finite r \<Rightarrow> r
      | NaN \<Rightarrow> ''NaN''
      | PosInf \<Rightarrow> ''Infinity''
      | NegInf \<Rightarrow> ''-Infinity'')"

definition hex_char :: "nat \<Rightarrow> char" where
  "hex_char d = (if d < 10 then char_of (48 + d) else char_of (87 + d))"

text \<open>The escape \<^verbatim>\<open>\uxxxx\<close> of a code point below \<open>0x10000\<close>.\<close>

definition u_escape :: "nat \<Rightarrow> string" where
  "u_escape n =
     [CHR 0x5C, CHR ''u'', hex_char (n div 4096 mod 16), hex_char (n div 256 mod 16),
      hex_char (n div 16 mod 16), hex_char (n mod 16)]"

text \<open>
  \<^verbatim>\<open>ensure_ascii\<close> is on: the quote and the backslash are escaped, and so is every
  character outside the range from the space to the tilde, the short escapes first,
  \<^verbatim>\<open>\uxxxx\<close> for the others, and a pair of surrogates for a code point from
  \<open>0x10000\<close> on.
\<close>

definition json_escape :: "nat \<Rightarrow> string" where
  "json_escape n =
     (if n = 0x22 then [CHR 0x5C, CHR 0x22]
      else if n = 0x5C then [CHR 0x5C, CHR 0x5C]
      else if n = 0x08 then [CHR 0x5C, CHR ''b'']
      else if n = 0x0C then [CHR 0x5C, CHR ''f'']
      else if n = 0x0A then [CHR 0x5C, CHR ''n'']
      else if n = 0x0D then [CHR 0x5C, CHR ''r'']
      else if n = 0x09 then [CHR 0x5C, CHR ''t'']
      else if 0x20 \<le> n \<and> n \<le> 0x7E then [char_of n]
      else if n < 0x10000 then u_escape n
      else u_escape (0xD800 + (n - 0x10000) div 1024 mod 1024)
             @ u_escape (0xDC00 + (n - 0x10000) mod 1024))"

definition json_string :: "unicode \<Rightarrow> string" where
  "json_string s = [CHR 0x22] @ concat (map json_escape s) @ [CHR 0x22]"

definition quoted :: "string \<Rightarrow> string" where
  "quoted s = [CHR 0x22] @ s @ [CHR 0x22]"

text \<open>
  A key is written as a JSON string: a \<^verbatim>\<open>str\<close> escaped as any text, and \<^verbatim>\<open>True\<close>,
  \<^verbatim>\<open>False\<close>, \<^verbatim>\<open>None\<close>, an integer and a float by their JSON text between quotes. Any
  other key raises \<^verbatim>\<open>TypeError\<close> (\<^verbatim>\<open>skipkeys\<close> is off).
\<close>

fun json_key :: "pykey \<Rightarrow> exn + string" where
  "json_key (KStr s) = Inr (json_string s)"
| "json_key (KFloat f) = Inr (quoted (float_repr f))"
| "json_key (KBool b) = Inr (quoted (if b then ''true'' else ''false''))"
| "json_key KNone = Inr (quoted ''null'')"
| "json_key (KInt i) = (case int_repr i of Inl e \<Rightarrow> Inl e | Inr r \<Rightarrow> Inr (quoted r))"
| "json_key (KBytes bs) =
     Inl (TypeError ''keys must be str, int, float, bool or None, not bytes'')"
| "json_key (KTuple ks) =
     Inl (TypeError ''keys must be str, int, float, bool or None, not tuple'')"
| "json_key (KObject ty) =
     Inl (TypeError (''keys must be str, int, float, bool or None, not '' @ ty))"

fun join :: "string \<Rightarrow> string list \<Rightarrow> string" where
  "join sep [] = []"
| "join sep [x] = x"
| "join sep (x # y # ys) = x @ sep @ join sep (y # ys)"

text \<open>The first element that fails decides, as the encoder stops there.\<close>

fun collect :: "(exn + 'a) list \<Rightarrow> exn + 'a list" where
  "collect [] = Inr []"
| "collect (Inl e # rs) = Inl e"
| "collect (Inr x # rs) = (case collect rs of Inl e \<Rightarrow> Inl e | Inr xs \<Rightarrow> Inr (x # xs))"

text \<open>
  \<open>json_dumps k v\<close> is \<^verbatim>\<open>json.dumps(v)\<close> when the interpreter's recursion limit leaves
  the encoder room to enter \<open>k\<close> nested containers; entering one more raises
  \<^verbatim>\<open>RecursionError\<close>. A list and a tuple are both written as an array. The output is
  ASCII.
\<close>

fun json_dumps :: "nat \<Rightarrow> pyval \<Rightarrow> exn + string" where
  "json_dumps k PNone = Inr ''null''"
| "json_dumps k (PBool b) = Inr (if b then ''true'' else ''false'')"
| "json_dumps k (PInt i) = int_repr i"
| "json_dumps k (PFloat f) = Inr (float_repr f)"
| "json_dumps k (PStr s) = Inr (json_string s)"
| "json_dumps k (PBytes bs) = Inl (TypeError ''Object of type bytes is not JSON serializable'')"
| "json_dumps k (PObject ty) =
     Inl (TypeError (''Object of type '' @ ty @ '' is not JSON serializable''))"
| "json_dumps k (PList xs) =
     (if k = 0 then Inl RecursionError
      else case collect (map (json_dumps (k - 1)) xs) of
             Inl e \<Rightarrow> Inl e
           | Inr ss \<Rightarrow> Inr (''['' @ join '', '' ss @ '']''))"
| "json_dumps k (PTuple xs) =
     (if k = 0 then Inl RecursionError
      else case collect (map (json_dumps (k - 1)) xs) of
             Inl e \<Rightarrow> Inl e
           | Inr ss \<Rightarrow> Inr (''['' @ join '', '' ss @ '']''))"
| "json_dumps k (PDict kvs) =
     (if k = 0 then Inl RecursionError
      else case collect (map (\<lambda>kv. case json_key (fst kv) of
                                       Inl e \<Rightarrow> Inl e
                                     | Inr key \<Rightarrow> (case json_dumps (k - 1) (snd kv) of
                                                    Inl e \<Rightarrow> Inl e
                                                  | Inr v \<Rightarrow> Inr (key @ '': '' @ v))) kvs) of
             Inl e \<Rightarrow> Inl e
           | Inr ss \<Rightarrow> Inr (''{'' @ join '', '' ss @ ''}''))"

subsection \<open>The conversion of a value to text\<close>

text \<open>
  An f-string formats a value with \<^verbatim>\<open>str\<close>, and the text of a tuple, a list or a
  dictionary holds the \<^verbatim>\<open>repr\<close> of its elements. \<open>str_raises k v\<close> is the exception
  \<^verbatim>\<open>str(v)\<close> raises, if any, when the recursion limit leaves it room to enter \<open>k\<close>
  nested containers: \<^verbatim>\<open>ValueError\<close> for an integer of too many digits at any depth,
  \<^verbatim>\<open>RecursionError\<close> for a container too deep. The conversions of the other
  values do not raise; an object of another type is taken to have conversions that
  return.
\<close>

fun first_raised :: "exn option list \<Rightarrow> exn option" where
  "first_raised [] = None"
| "first_raised (None # rs) = first_raised rs"
| "first_raised (Some e # rs) = Some e"

fun key_str_raises :: "nat \<Rightarrow> pykey \<Rightarrow> exn option" where
  "key_str_raises k (KInt i) = (case int_repr i of Inl e \<Rightarrow> Some e | Inr ds \<Rightarrow> None)"
| "key_str_raises k (KTuple ks) =
     (if k = 0 then Some RecursionError else first_raised (map (key_str_raises (k - 1)) ks))"
| "key_str_raises k key = None"

fun str_raises :: "nat \<Rightarrow> pyval \<Rightarrow> exn option" where
  "str_raises k (PInt i) = (case int_repr i of Inl e \<Rightarrow> Some e | Inr ds \<Rightarrow> None)"
| "str_raises k (PList xs) =
     (if k = 0 then Some RecursionError else first_raised (map (str_raises (k - 1)) xs))"
| "str_raises k (PTuple xs) =
     (if k = 0 then Some RecursionError else first_raised (map (str_raises (k - 1)) xs))"
| "str_raises k (PDict kvs) =
     (if k = 0 then Some RecursionError
      else first_raised (map (\<lambda>kv. case key_str_raises (k - 1) (fst kv) of
                                        Some e \<Rightarrow> Some e
                                      | None \<Rightarrow> str_raises (k - 1) (snd kv)) kvs))"
| "str_raises k v = None"

section \<open>The data model of the wrapper\<close>

text \<open>The dataclass \<^verbatim>\<open>MQTTConfig\<close>.\<close>

record MQTTConfig =
  broker_host :: string
  broker_port :: int
  broker_user :: "string option"
  broker_password :: "string option"
  client_id :: string
  keepalive :: int
  qos :: int
  subscribe_topics :: "string list"

text \<open>
  An inbound \<^verbatim>\<open>paho.MQTTMessage\<close>, as far as the wrapper reads it: the text
  \<^verbatim>\<open>msg.topic\<close> returns and the bytes of \<^verbatim>\<open>msg.payload\<close>. The messages for which
  reading \<^verbatim>\<open>msg.topic\<close> raises, their topic not being UTF-8, are not among them.
\<close>

record message =
  topic :: string
  payload :: "byte list"

text \<open>
  The requests the wrapper issues to the protocol client \<^verbatim>\<open>self.client\<close>, with their
  arguments, in the order of issue.
\<close>

datatype client_call =
    Connect string int int
  | Disconnect
  | Subscribe string int
  | Publish string pyval int bool

fun is_Publish :: "client_call \<Rightarrow> bool" where
  "is_Publish (Publish t p q r) = True"
| "is_Publish c = False"

datatype level = INFO | WARNING | ERROR

text \<open>One constructor for each message the wrapper logs, with the values it interpolates.\<close>

datatype log_msg =
    ConnectedTo string \<comment> \<open>Successfully connected to MQTT broker at (host)\<close>
  | SubscribedTo string \<comment> \<open>Subscribed to topic: (topic)\<close>
  | ConnectFailed int \<comment> \<open>Failed to connect to broker with result code (rc)\<close>
  | MessageReceived string "nat list" \<comment> \<open>Message received on topic '(topic)': (decoded payload)\<close>
  | HandlerError exn \<comment> \<open>Error processing message in handler: (e)\<close>
  | UnexpectedDisconnect \<comment> \<open>Unexpected disconnection from MQTT broker.\<close>
  | LoopStarted \<comment> \<open>MQTT background loop started.\<close>
  | LoopStopped \<comment> \<open>MQTT background loop stopped.\<close>
  | AlreadyRunning \<comment> \<open>Client is already running.\<close>
  | Starting \<comment> \<open>Starting MQTT client...\<close>
  | CouldNotConnect string exn \<comment> \<open>Could not connect to MQTT broker at (host): (e)\<close>
  | UnexpectedStartError exn \<comment> \<open>An unexpected error occurred while starting the client: (e)\<close>
  | Stopping \<comment> \<open>Stopping MQTT client...\<close>
  | PublishNotConnected \<comment> \<open>Publish failed: MQTT client is not connected.\<close>
  | QueuedPublish string pyval \<comment> \<open>Queued publish to topic '(topic)': (payload)\<close>
  | FailedQueuePublish string \<comment> \<open>Failed to queue publish to topic '(topic)'\<close>
  | OnMessageNotImplemented \<comment> \<open>on_message not implemented. Subclass ...\<close>

text \<open>
  The mutable state of a \<^verbatim>\<open>FletMQTTClient\<close>: its configuration, the
  \<^verbatim>\<open>asyncio.Event\<close> \<^verbatim>\<open>connected_event\<close>, the flag \<^verbatim>\<open>_is_running\<close>, and what the
  object does to its surroundings: the records written to the logger, the requests
  issued to the protocol client, the messages passed to the message handler, and the
  tasks running \<^verbatim>\<open>_background_loop\<close> on the page: \<open>tasks\<close> counts the live ones,
  \<open>fresh\<close> those of them that have not had their first turn.
\<close>

record client_state =
  config :: MQTTConfig
  connected_event :: bool
  is_running :: bool
  logged :: "(level \<times> log_msg) list"
  calls :: "client_call list"
  handled :: "message list"
  tasks :: nat
  fresh :: nat

text \<open>
  \<^verbatim>\<open>await self.page.run_task(self._background_loop)\<close>: the call raises before it
  schedules anything, or it schedules the task and awaiting what it returned raises or
  completes.
\<close>

datatype run_task_outcome = NotScheduled exn | Scheduled "exn option"

text \<open>
  The collaborators the wrapper calls and this repository does not define: the
  protocol client (paho), the page (flet) and the handler given to the constructor.
  The environment says of a call whether it raises, for the calls the wrapper guards
  with a \<^verbatim>\<open>try\<close> (\<^verbatim>\<open>connect\<close>, \<^verbatim>\<open>run_task\<close>, the handler) and for the calls whose
  arguments the protocol client validates (\<^verbatim>\<open>subscribe\<close> and \<^verbatim>\<open>publish\<close> raise
  \<^verbatim>\<open>ValueError\<close> or \<^verbatim>\<open>TypeError\<close> on a topic, QoS or payload they refuse).
  \<open>client_publish\<close> returns the \<^verbatim>\<open>rc\<close> of the enqueue result otherwise.
  \<open>on_message_handler = None\<close> is a constructor called without a handler.
  \<open>stack_room\<close> is the number of nested containers \<^verbatim>\<open>json.dumps\<close> can enter before the
  interpreter's recursion limit, which depends on the depth of the call, and
  \<open>repr_room\<close> the number \<^verbatim>\<open>str\<close> can enter.
\<close>

record env =
  client_connect :: "string \<Rightarrow> int \<Rightarrow> int \<Rightarrow> exn option"
  client_subscribe :: "string \<Rightarrow> int \<Rightarrow> exn option"
  client_publish :: "string \<Rightarrow> pyval \<Rightarrow> int \<Rightarrow> bool \<Rightarrow> exn + int"
  page_run_task :: run_task_outcome
  on_message_handler :: "(message \<Rightarrow> exn option) option"
  stack_room :: nat
  repr_room :: nat

definition MQTT_ERR_SUCCESS :: int where
  "MQTT_ERR_SUCCESS = 0"

definition log :: "level \<Rightarrow> log_msg \<Rightarrow> client_state \<Rightarrow> client_state" where
  "log l m s = s\<lparr>logged := logged s @ [(l, m)]\<rparr>"

definition issue :: "client_call \<Rightarrow> client_state \<Rightarrow> client_state" where
  "issue c s = s\<lparr>calls := calls s @ [c]\<rparr>"

text \<open>\<^verbatim>\<open>__init__\<close>: a fresh event is not set, and the client is not running.\<close>

definition init :: "MQTTConfig \<Rightarrow> client_state" where
  "init cfg = \<lparr>config = cfg, connected_event = False, is_running = False,
               logged = [], calls = [], handled = [], tasks = 0, fresh = 0\<rparr>"

section \<open>The callbacks\<close>

text \<open>
  The loop of \<^verbatim>\<open>_on_connect\<close>: one \<^verbatim>\<open>client.subscribe(topic, qos=self.config.qos)\<close>
  for each topic, then its log record. A \<^verbatim>\<open>subscribe\<close> that raises ends the loop.
\<close>

fun subscribe_all :: "env \<Rightarrow> client_state \<Rightarrow> string list \<Rightarrow> client_state \<times> exn option" where
  "subscribe_all ev s [] = (s, None)"
| "subscribe_all ev s (t # ts) =
     (let s1 = issue (Subscribe t (qos (config s))) s in
      case client_subscribe ev t (qos (config s)) of
        Some e \<Rightarrow> (s1, Some e)
      | None \<Rightarrow> subscribe_all ev (log INFO (SubscribedTo t) s1) ts)"

definition on_connect :: "env \<Rightarrow> client_state \<Rightarrow> int \<Rightarrow> client_state \<times> exn option" where
  "on_connect ev s rc =
     (if rc = 0 then
        let s1 = log INFO (ConnectedTo (broker_host (config s))) s;
            s2 = s1\<lparr>connected_event := True\<rparr>
        in if subscribe_topics (config s) \<noteq> []
           then subscribe_all ev s2 (subscribe_topics (config s))
           else (s2, None)
      else
        let s1 = log ERROR (ConnectFailed rc) s
        in (s1\<lparr>connected_event := False\<rparr>, None))"

text \<open>The placeholder \<^verbatim>\<open>on_message\<close>, the handler when the constructor got none.\<close>

definition on_message :: "client_state \<Rightarrow> message \<Rightarrow> client_state" where
  "on_message s m = log WARNING OnMessageNotImplemented s"

text \<open>
  \<^verbatim>\<open>_on_message_internal\<close>. The argument of the first \<^verbatim>\<open>logger.info\<close> is an f-string
  with \<^verbatim>\<open>msg.payload.decode()\<close> in it, evaluated before the logger is called and
  before the \<^verbatim>\<open>try\<close> begins.
\<close>

definition on_message_internal :: "env \<Rightarrow> client_state \<Rightarrow> message \<Rightarrow> client_state \<times> exn option" where
  "on_message_internal ev s m =
     (case utf8_decode (payload m) of
        None \<Rightarrow> (s, Some UnicodeDecodeError)
      | Some txt \<Rightarrow>
          let s1 = log INFO (MessageReceived (topic m) txt) s;
              s2 = s1\<lparr>handled := handled s1 @ [m]\<rparr>
          in (case on_message_handler ev of
                None \<Rightarrow> (on_message s2 m, None)
              | Some h \<Rightarrow>
                  (case h m of
                     None \<Rightarrow> (s2, None)
                   | Some e \<Rightarrow> (log ERROR (HandlerError e) s2, None))))"

definition on_disconnect :: "client_state \<Rightarrow> int \<Rightarrow> client_state" where
  "on_disconnect s rc =
     (let s1 = s\<lparr>connected_event := False\<rparr>
      in if rc \<noteq> 0 then log WARNING UnexpectedDisconnect s1 else s1)"

section \<open>The lifecycle\<close>

text \<open>
  \<^verbatim>\<open>start\<close>. Both \<^verbatim>\<open>except\<close> clauses log and fall through to the end of the
  coroutine: the first takes \<^verbatim>\<open>socket.error\<close> and \<^verbatim>\<open>OSError\<close>, the second every other
  \<^verbatim>\<open>Exception\<close>.
\<close>

definition start_except :: "client_state \<Rightarrow> exn \<Rightarrow> client_state" where
  "start_except s e =
     (if is_OSError e then log ERROR (CouldNotConnect (broker_host (config s)) e) s
      else log ERROR (UnexpectedStartError e) s)"

definition start :: "env \<Rightarrow> client_state \<Rightarrow> client_state \<times> exn option" where
  "start ev s =
     (if is_running s then (log WARNING AlreadyRunning s, None)
      else
        let s1 = log INFO Starting s;
            s2 = s1\<lparr>connected_event := False\<rparr>;
            s3 = issue (Connect (broker_host (config s)) (broker_port (config s))
                          (keepalive (config s))) s2
        in case client_connect ev (broker_host (config s)) (broker_port (config s))
                  (keepalive (config s)) of
             Some e \<Rightarrow> (start_except s3 e, None)
           | None \<Rightarrow>
               let s4 = s3\<lparr>is_running := True\<rparr>
               in (case page_run_task ev of
                     NotScheduled e \<Rightarrow> (start_except s4 e, None)
                   | Scheduled r \<Rightarrow>
                       let s5 = s4\<lparr>tasks := tasks s4 + 1, fresh := fresh s4 + 1\<rparr>
                       in (case r of
                             Some e \<Rightarrow> (start_except s5 e, None)
                           | None \<Rightarrow> (s5, None))))"

text \<open>
  \<^verbatim>\<open>stop\<close>. There is no \<^verbatim>\<open>try\<close> in it; \<^verbatim>\<open>client.disconnect()\<close> takes no argument
  and its contract names no exception.
\<close>

definition stop :: "client_state \<Rightarrow> client_state \<times> exn option" where
  "stop s =
     (if \<not> is_running s then (s, None)
      else
        let s1 = log INFO Stopping s;
            s2 = s1\<lparr>is_running := False\<rparr>;
            s3 = issue Disconnect s2
        in (s3\<lparr>connected_event := False\<rparr>, None))"

section \<open>The background task and the scheduler\<close>

text \<open>
  What one call of \<^verbatim>\<open>self.client.loop()\<close> finds on the network, and so which callback
  it runs: nothing, a connect acknowledgement with its result code, an inbound message,
  or the end of the connection with its result code.
\<close>

datatype net_event = NoPacket | ConnAck int | Inbound message | ConnLost int

text \<open>
  \<^verbatim>\<open>client.loop()\<close> runs the callback the wrapper registered in
  \<^verbatim>\<open>_setup_callbacks\<close>; what the callback raises comes out of \<^verbatim>\<open>loop()\<close>.
\<close>

fun client_loop :: "env \<Rightarrow> client_state \<Rightarrow> net_event \<Rightarrow> client_state \<times> exn option" where
  "client_loop ev s NoPacket = (s, None)"
| "client_loop ev s (ConnAck rc) = on_connect ev s rc"
| "client_loop ev s (Inbound m) = on_message_internal ev s m"
| "client_loop ev s (ConnLost rc) = (on_disconnect s rc, None)"

text \<open>
  The first line of \<^verbatim>\<open>_background_loop\<close>: a task that has not run yet takes the turn
  and logs that the loop started.
\<close>

definition enter_loop :: "client_state \<Rightarrow> client_state" where
  "enter_loop s =
     (if 0 < fresh s then (log INFO LoopStarted s)\<lparr>fresh := fresh s - 1\<rparr> else s)"

text \<open>
  One turn of a task running \<^verbatim>\<open>_background_loop\<close>, up to the next
  \<^verbatim>\<open>asyncio.sleep\<close>. Without a live task nothing runs. When \<^verbatim>\<open>_is_running\<close> is false
  the loop logs and the task ends. An exception out of \<^verbatim>\<open>client.loop()\<close> is not caught
  in \<^verbatim>\<open>_background_loop\<close> and ends the task too.
\<close>

definition tick :: "env \<Rightarrow> client_state \<Rightarrow> net_event \<Rightarrow> client_state \<times> exn option" where
  "tick ev s n =
     (if tasks s = 0 then (s, None)
      else
        let s0 = enter_loop s
        in if \<not> is_running s0 then ((log INFO LoopStopped s0)\<lparr>tasks := tasks s0 - 1\<rparr>, None)
           else (case client_loop ev s0 n of
                   (s1, None) \<Rightarrow> (s1, None)
                 | (s1, Some e) \<Rightarrow> (s1\<lparr>tasks := tasks s1 - 1\<rparr>, Some e)))"

text \<open>
  What the cooperative scheduler runs while a coroutine is suspended: a turn of the
  background task, or another coroutine of the application calling \<^verbatim>\<open>stop()\<close> or
  \<^verbatim>\<open>start()\<close>.
\<close>

datatype event = Tick net_event | CallStop | CallStart

fun step :: "env \<Rightarrow> client_state \<Rightarrow> event \<Rightarrow> client_state \<times> exn option" where
  "step ev s (Tick n) = tick ev s n"
| "step ev s CallStop = stop s"
| "step ev s CallStart = start ev s"

text \<open>A schedule, run to its end; what a step raises goes to the task that ran it.\<close>

fun run :: "env \<Rightarrow> client_state \<Rightarrow> event list \<Rightarrow> client_state" where
  "run ev s [] = s"
| "run ev s (e # es) = run ev (fst (step ev s e)) es"

section \<open>The publisher\<close>

text \<open>
  \<^verbatim>\<open>await asyncio.wait_for(self.connected_event.wait(), timeout=5.0)\<close>. The list
  \<open>es\<close> is what the scheduler runs until the five seconds are over, in order.

  The wait does not see the event at the moment of the call when \<^verbatim>\<open>wait_for\<close> wraps
  \<^verbatim>\<open>Event.wait()\<close> in a task of its own (as up to Python 3.11): the task tests the
  event one turn of the event loop later, after the \<open>d\<close> steps that were ready before it
  (\<open>d = 0\<close> where \<^verbatim>\<open>wait_for\<close> awaits the coroutine directly). If the event is set at
  that test, the wait is over. Otherwise the task registers with the event, and only a
  step that sets the event wakes it; when \<open>es\<close> ends first, \<^verbatim>\<open>wait_for\<close> raises
  \<^verbatim>\<open>asyncio.TimeoutError\<close>, which is \<open>False\<close> here.

  A wait that is over does not resume \<^verbatim>\<open>publish\<close> at once either: the \<open>l\<close> steps
  that are ready before it run first, and may clear the event again. \<^verbatim>\<open>Event.wait()\<close>
  does not test the event a second time.
\<close>

fun registered :: "env \<Rightarrow> client_state \<Rightarrow> nat \<Rightarrow> event list \<Rightarrow> client_state \<times> bool" where
  "registered ev s l [] = (s, False)"
| "registered ev s l (e # es) =
     (let s1 = fst (step ev s e)
      in if connected_event s1 then (run ev s1 (take l es), True)
         else registered ev s1 l es)"

definition wait_connected ::
  "env \<Rightarrow> client_state \<Rightarrow> nat \<Rightarrow> nat \<Rightarrow> event list \<Rightarrow> client_state \<times> bool" where
  "wait_connected ev s d l es =
     (let s0 = run ev s (take d es)
      in if connected_event s0 then (run ev s0 (take l (drop d es)), True)
         else registered ev s0 l (drop d es))"

text \<open>\<^verbatim>\<open>isinstance(payload, (dict, list))\<close>.\<close>

fun is_dict_or_list :: "pyval \<Rightarrow> bool" where
  "is_dict_or_list (PDict kvs) = True"
| "is_dict_or_list (PList xs) = True"
| "is_dict_or_list p = False"

text \<open>
  \<^verbatim>\<open>publish(topic, payload, qos, retain)\<close>, called in state \<open>s\<close> with \<open>es\<close> going on
  while it waits. Only \<^verbatim>\<open>asyncio.TimeoutError\<close> is caught; \<^verbatim>\<open>json.dumps\<close> and
  \<^verbatim>\<open>client.publish\<close> are called outside the \<^verbatim>\<open>try\<close>, in the state in which
  \<^verbatim>\<open>publish\<close> resumes. The text \<^verbatim>\<open>json.dumps\<close> returns is a \<^verbatim>\<open>str\<close>. The log
  statement of a successful enqueue formats the payload in an f-string, outside any
  \<^verbatim>\<open>try\<close> as well, before the logger is called.
\<close>

definition publish ::
  "env \<Rightarrow> client_state \<Rightarrow> nat \<Rightarrow> nat \<Rightarrow> event list \<Rightarrow> string \<Rightarrow> pyval \<Rightarrow> int option \<Rightarrow> bool
     \<Rightarrow> client_state \<times> exn option" where
  "publish ev s d l es t p qos_arg retain =
     (case wait_connected ev s d l es of
        (s1, in_time) \<Rightarrow>
          if \<not> in_time then (log ERROR PublishNotConnected s1, None)
          else
            (case (if is_dict_or_list p
                   then map_sum id (\<lambda>js. PStr (str js)) (json_dumps (stack_room ev) p)
                   else Inr p) of
               Inl e \<Rightarrow> (s1, Some e)
             | Inr p1 \<Rightarrow>
                 let qos_level = (case qos_arg of Some q \<Rightarrow> q | None \<Rightarrow> qos (config s1));
                     s2 = issue (Publish t p1 qos_level retain) s1
                 in (case client_publish ev t p1 qos_level retain of
                       Inl e \<Rightarrow> (s2, Some e)
                     | Inr rc \<Rightarrow>
                         if rc = MQTT_ERR_SUCCESS
                         then (case str_raises (repr_room ev) p1 of
                                 Some e \<Rightarrow> (s2, Some e)
                               | None \<Rightarrow> (log INFO (QueuedPublish t p1) s2, None))
                         else (log ERROR (FailedQueuePublish t) s2, None))))"

section \<open>Configurations and environments to run the model on\<close>

text \<open>
  The configuration of \<^verbatim>\<open>main.py\<close> (its topics without the time stamp), one with no
  topic to subscribe to, and one whose second topic is the empty string.
\<close>

definition demo_config :: MQTTConfig where
  "demo_config =
     \<lparr>broker_host = ''broker.hivemq.com'', broker_port = 1883, broker_user = None,
      broker_password = None, client_id = ''flet_mqtt_async_demo'', keepalive = 60, qos = 0,
      subscribe_topics = [''flet-mqtt-demo/light/state'', ''flet-mqtt-demo/light/set'']\<rparr>"

definition quiet_config :: MQTTConfig where
  "quiet_config = demo_config\<lparr>subscribe_topics := []\<rparr>"

definition gap_config :: MQTTConfig where
  "gap_config = demo_config\<lparr>subscribe_topics := [''a/b'', [], ''c'']\<rparr>"

text \<open>The payloads the protocol client's \<^verbatim>\<open>publish\<close> takes.\<close>

fun sendable :: "pyval \<Rightarrow> bool" where
  "sendable (PStr s) = True"
| "sendable (PBytes bs) = True"
| "sendable (PInt i) = True"
| "sendable (PBool b) = True"
| "sendable (PFloat f) = True"
| "sendable PNone = True"
| "sendable p = False"

text \<open>
  A protocol client with the argument checks of paho: \<^verbatim>\<open>connect\<close> refuses an empty
  host name, \<^verbatim>\<open>subscribe\<close> a QoS outside 0, 1, 2 and an empty topic, \<^verbatim>\<open>publish\<close>
  an empty topic, such a QoS and a payload that is no string, bytes, number or
  \<^verbatim>\<open>None\<close>, and it converts a number to its text; everything else is enqueued. The
  page schedules the task.
\<close>

definition demo_env :: env where
  "demo_env =
     \<lparr>client_connect =
        (\<lambda>h p k. if h = [] then Some (ValueError ''Invalid host.'') else None),
      client_subscribe =
        (\<lambda>t q. if q < 0 \<or> 2 < q then Some (ValueError ''Invalid QoS level.'')
                else if t = [] then Some (ValueError ''Invalid topic.'')
                else None),
      client_publish =
        (\<lambda>t p q r. if t = [] then Inl (ValueError ''Invalid topic.'')
                    else if q < 0 \<or> 2 < q then Inl (ValueError ''Invalid QoS level.'')
                    else if \<not> sendable p
                    then Inl (TypeError ''payload must be a string, bytearray, int, float or None.'')
                    else (case str_raises 0 p of Some e \<Rightarrow> Inl e | None \<Rightarrow> Inr 0)),
      page_run_task = Scheduled None,
      on_message_handler = None,
      stack_room = 900,
      repr_room = 900\<rparr>"

text \<open>A name server that does not know the host.\<close>

definition unreachable_env :: env where
  "unreachable_env =
     demo_env\<lparr>client_connect :=
       (\<lambda>h p k. Some (OSError ''[Errno -2] Name or service not known''))\<rparr>"



text \<open>A handler that raises on every call.\<close>

definition raising_handler :: "message \<Rightarrow> exn option" where
  "raising_handler m = Some (RuntimeError (''cannot handle '' @ topic m))"

definition failing_env :: env where
  "failing_env = demo_env\<lparr>on_message_handler := Some raising_handler\<rparr>"

text \<open>
  The client of \<^verbatim>\<open>main.py\<close> after \<^verbatim>\<open>start()\<close>, and after the connect
  acknowledgement has arrived as well.
\<close>

definition started :: client_state where
  "started = run demo_env (init demo_config) [CallStart]"

definition online :: client_state where
  "online = run demo_env (init demo_config) [CallStart, Tick (ConnAck 0)]"

text \<open>Two inbound messages: the bytes of \<^verbatim>\<open>ON\<close>, and two bytes that are not UTF-8.\<close>

definition light_on :: message where
  "light_on = \<lparr>topic = ''flet-mqtt-demo/light/state'', payload = [0x4F, 0x4E]\<rparr>"

definition garbled :: message where
  "garbled = \<lparr>topic = ''flet-mqtt-demo/light/state'', payload = [0xFF, 0xFE]\<rparr>"

text \<open>
  Payloads to publish: the dictionary \<^verbatim>\<open>toggle_light_state_async\<close> sends; one whose
  value is a \<^verbatim>\<open>bytes\<close> object; a list with an integer of 4301 digits; a dictionary
  with text to escape, keys that are no strings and containers three deep; one with
  the other escapes, keys and floats; a list; a tuple.
\<close>

definition command_topic :: string where
  "command_topic = ''flet-mqtt-demo/light/set''"

definition state_on :: pyval where
  "state_on = PDict [(KStr (str ''state''), PStr (str ''ON''))]"

definition state_raw :: pyval where
  "state_raw = PDict [(KStr (str ''state''), PBytes [0x4F, 0x4E])]"

definition big_int :: int where
  "big_int = 10 ^ 4300"

definition huge :: pyval where
  "huge = PList [PInt big_int]"

definition rich :: pyval where
  "rich = PDict
     [(KStr (str ''name''), PStr [0x22, 0x5C, 0x0A, 0xE9, 0x1F600, 0x07, 0x7F]),
      (KInt (- 12),
       PList [PNone, PBool True, PInt 1305, PTuple [PFloat (Finite ''1.5''), PFloat NaN]]),
      (KBool False, PDict []),
      (KNone, PList [])]"

definition odd :: pyval where
  "odd = PDict
     [(KStr [0x08, 0x0C, 0x0D, 0x09, 0x20, 0x7E, 0x1F, 0x80, 0x12AB, 0xC456, 0xFFFF,
             0x10000, 0x10FFFF, 0xD800], PTuple []),
      (KFloat (Finite ''2.5''), PFloat PosInf),
      (KBool True, PFloat NegInf),
      (KFloat NaN, PBool False),
      (KInt 0, PInt (- 7)),
      (KStr [], PStr [])]"

definition levels :: pyval where
  "levels = PList [PInt 1, PStr (str ''two''), PList [PInt 3]]"

definition pair :: pyval where
  "pair = PTuple [PInt 1, PInt 2]"

section \<open>Logging and issuing touch one field each\<close>

lemma log_fields [simp]:
  "config (log l m s) = config s"
  "connected_event (log l m s) = connected_event s"
  "is_running (log l m s) = is_running s"
  "calls (log l m s) = calls s"
  "handled (log l m s) = handled s"
  "tasks (log l m s) = tasks s"
  "fresh (log l m s) = fresh s"
  "logged (log l m s) = logged s @ [(l, m)]"
  by (simp_all add: log_def)

lemma issue_fields [simp]:
  "config (issue c s) = config s"
  "connected_event (issue c s) = connected_event s"
  "is_running (issue c s) = is_running s"
  "calls (issue c s) = calls s @ [c]"
  "handled (issue c s) = handled s"
  "tasks (issue c s) = tasks s"
  "fresh (issue c s) = fresh s"
  "logged (issue c s) = logged s"
  by (simp_all add: issue_def)

lemma enter_loop_fields [simp]:
  "config (enter_loop s) = config s"
  "connected_event (enter_loop s) = connected_event s"
  "is_running (enter_loop s) = is_running s"
  "calls (enter_loop s) = calls s"
  "handled (enter_loop s) = handled s"
  "tasks (enter_loop s) = tasks s"
  by (simp_all add: enter_loop_def)

section \<open>The example states and payloads, evaluated\<close>

lemma started_eq:
  "started = \<lparr>config = demo_config, connected_event = False, is_running = True,
      logged = [(INFO, Starting)],
      calls = [Connect ''broker.hivemq.com'' 1883 60], handled = [], tasks = 1, fresh = 1\<rparr>"
  by (simp add: started_def init_def start_def demo_env_def demo_config_def Let_def log_def issue_def)

lemma online_eq:
  "online = \<lparr>config = demo_config, connected_event = True, is_running = True,
      logged = [(INFO, Starting), (INFO, LoopStarted), (INFO, ConnectedTo ''broker.hivemq.com''),
                (INFO, SubscribedTo ''flet-mqtt-demo/light/state''),
                (INFO, SubscribedTo ''flet-mqtt-demo/light/set'')],
      calls = [Connect ''broker.hivemq.com'' 1883 60, Subscribe ''flet-mqtt-demo/light/state'' 0,
               Subscribe ''flet-mqtt-demo/light/set'' 0], handled = [], tasks = 1, fresh = 0\<rparr>"
  by (simp add: online_def init_def start_def tick_def enter_loop_def on_connect_def
        demo_env_def demo_config_def Let_def log_def issue_def)


lemmas json_eval =
  json_string_def json_escape_def u_escape_def hex_char_def char_of_def bit_Suc_0_iff
  int_repr_def int_max_str_digits_def show_int_def show_nat.simps digit_char_def
  float_repr_def quoted_def str_def

lemma state_on_json: \<open>json_dumps 900 state_on = Inr ''{"state": "ON"}''\<close>
  by (simp add: state_on_def json_eval)

lemma state_raw_json:
  "json_dumps 900 state_raw = Inl (TypeError ''Object of type bytes is not JSON serializable'')"
  by (simp add: state_raw_def json_eval)

lemma v1_json: \<open>json_dumps 900 (PDict [(KStr (str ''v''), PInt 1)]) = Inr ''{"v": 1}''\<close>
  by (simp add: json_eval)

lemma rich_json:
  \<open>json_dumps 900 rich =
     Inr (''{"name": "'' @ [CHR 0x5C] @ ''"'' @ [CHR 0x5C, CHR 0x5C, CHR 0x5C] @ ''n''
          @ [CHR 0x5C] @ ''u00e9'' @ [CHR 0x5C] @ ''ud83d'' @ [CHR 0x5C] @ ''ude00''
          @ [CHR 0x5C] @ ''u0007'' @ [CHR 0x5C] @ ''u007f", ''
          @ ''"-12": [null, true, 1305, [1.5, NaN]], "false": {}, "null": []}'')\<close>
  by (simp add: rich_def json_eval)

lemma odd_json:
  \<open>json_dumps 900 odd =
     Inr (''{"'' @ [CHR 0x5C] @ ''b'' @ [CHR 0x5C] @ ''f'' @ [CHR 0x5C] @ ''r''
          @ [CHR 0x5C] @ ''t ~'' @ [CHR 0x5C] @ ''u001f'' @ [CHR 0x5C] @ ''u0080''
          @ [CHR 0x5C] @ ''u12ab'' @ [CHR 0x5C] @ ''uc456'' @ [CHR 0x5C] @ ''uffff''
          @ [CHR 0x5C] @ ''ud800'' @ [CHR 0x5C] @ ''udc00'' @ [CHR 0x5C] @ ''udbff''
          @ [CHR 0x5C] @ ''udfff'' @ [CHR 0x5C]
          @ ''ud800": [], "2.5": Infinity, "true": -Infinity, "NaN": false, "0": -7, "": ""}'')\<close>
  by (simp add: odd_def json_eval)


lemma levels_json: \<open>json_dumps 900 levels = Inr ''[1, "two", [3]]''\<close>
  by (simp add: levels_def json_eval)

lemma pair_json: "json_dumps 900 pair = Inr ''[1, 2]''"
  by (simp add: pair_def json_eval)

text \<open>An integer from the \<open>k\<close>-th power of ten on has more than \<open>k\<close> digits.\<close>

lemma show_nat_digits: "10 ^ k \<le> n \<Longrightarrow> k < length (show_nat n)"
proof (induction k arbitrary: n)
  case 0
  show ?case by (subst show_nat.simps) simp
next
  case (Suc k)
  from Suc.prems have "10 * 10 ^ k \<le> n" by simp
  then have big: "10 \<le> n" and rest: "10 ^ k \<le> n div 10"
    by (auto simp: less_eq_div_iff_mult_less_eq intro: order_trans [of 10 "10 * 10 ^ k" n])
  from rest have "k < length (show_nat (n div 10))"
    by (rule Suc.IH)
  with big show ?case by (subst show_nat.simps) simp
qed

lemma int_repr_power:
  assumes "int_max_str_digits \<le> k"
  shows "int_repr (10 ^ k) =
           Inl (ValueError digits_limit_message)"
proof -
  have e: "nat \<bar>(10::int) ^ k\<bar> = (10::nat) ^ k"
    by (simp add: nat_power_eq)
  have "k < length (show_nat (nat \<bar>(10::int) ^ k\<bar>))"
    unfolding e by (rule show_nat_digits) simp
  with assms have "int_max_str_digits < length (show_nat (nat \<bar>(10::int) ^ k\<bar>))"
    by (rule le_less_trans)
  then show ?thesis
    unfolding int_repr_def by (rule if_P)
qed

lemma big_int_repr:
  "int_repr big_int =
     Inl (ValueError digits_limit_message)"
  unfolding big_int_def by (rule int_repr_power) (simp add: int_max_str_digits_def)

lemma huge_json:
  "json_dumps 900 huge =
     Inl (ValueError digits_limit_message)"
  by (simp add: huge_def big_int_repr)

section \<open>Subscriptions on a connect acknowledgement\<close>

lemma subscribe_all_accepted:
  "list_all (\<lambda>t. client_subscribe ev t (qos (config s)) = None) ts \<Longrightarrow>
   subscribe_all ev s ts =
     (s\<lparr>logged := logged s @ map (\<lambda>t. (INFO, SubscribedTo t)) ts,
        calls := calls s @ map (\<lambda>t. Subscribe t (qos (config s))) ts\<rparr>, None)"
proof (induction ts arbitrary: s)
  case Nil
  show ?case by simp
next
  case (Cons t ts)
  from Cons.prems have here: "client_subscribe ev t (qos (config s)) = None"
    and rest: "list_all (\<lambda>u. client_subscribe ev u (qos (config s)) = None) ts"
    by simp_all
  let ?s1 = "log INFO (SubscribedTo t) (issue (Subscribe t (qos (config s))) s)"
  have "subscribe_all ev ?s1 ts =
     (?s1\<lparr>logged := logged ?s1 @ map (\<lambda>t. (INFO, SubscribedTo t)) ts,
          calls := calls ?s1 @ map (\<lambda>t. Subscribe t (qos (config ?s1))) ts\<rparr>, None)"
    by (rule Cons.IH) (simp add: rest)
  then show ?case using here
    by (simp add: Let_def log_def issue_def)
qed

lemma subscribe_all_calls:
  "calls (fst (subscribe_all ev s ts)) =
     calls s @ map (\<lambda>t. Subscribe t (qos (config s)))
       (take (Suc (length (takeWhile (\<lambda>t. client_subscribe ev t (qos (config s)) = None) ts))) ts)
   \<and> snd (subscribe_all ev s ts) =
       (case dropWhile (\<lambda>t. client_subscribe ev t (qos (config s)) = None) ts of
          [] \<Rightarrow> None
        | t # rest \<Rightarrow> client_subscribe ev t (qos (config s)))"
proof (induction ts arbitrary: s)
  case Nil
  show ?case by simp
next
  case (Cons t ts)
  show ?case
  proof (cases "client_subscribe ev t (qos (config s))")
    case (Some e)
    then show ?thesis by (simp add: Let_def)
  next
    case None
    let ?s1 = "log INFO (SubscribedTo t) (issue (Subscribe t (qos (config s))) s)"
    have cfg: "config ?s1 = config s"
      and cls: "calls ?s1 = calls s @ [Subscribe t (qos (config s))]"
      by simp_all
    note ih = Cons.IH [of ?s1, unfolded cfg cls]
    with None show ?thesis by (simp add: Let_def)
  qed
qed

text \<open>
  C3, as amended. A connect acknowledgement with result code 0 issues the subscribe
  requests in the order of the list, each at the configured default QoS, and stops
  with the first topic the protocol client's \<^verbatim>\<open>subscribe\<close> raises for, whose exception
  leaves the callback. When the protocol client accepts every configured topic, each
  of the N topics gets exactly one request and nothing raises; in particular no
  request is issued for the empty list.
\<close>

theorem on_connect_subscribes:
  "(list_all (\<lambda>t. client_subscribe ev t (qos (config s)) = None) (subscribe_topics (config s))
      \<longrightarrow> calls (fst (on_connect ev s 0)) =
            calls s @ map (\<lambda>t. Subscribe t (qos (config s))) (subscribe_topics (config s))
          \<and> length (calls (fst (on_connect ev s 0))) =
              length (calls s) + length (subscribe_topics (config s))
          \<and> snd (on_connect ev s 0) = None)
   \<and> calls (fst (on_connect ev s 0)) =
       calls s @ map (\<lambda>t. Subscribe t (qos (config s)))
         (take (Suc (length (takeWhile (\<lambda>t. client_subscribe ev t (qos (config s)) = None)
                               (subscribe_topics (config s)))))
            (subscribe_topics (config s)))
   \<and> snd (on_connect ev s 0) =
       (case dropWhile (\<lambda>t. client_subscribe ev t (qos (config s)) = None)
               (subscribe_topics (config s)) of
          [] \<Rightarrow> None
        | t # rest \<Rightarrow> client_subscribe ev t (qos (config s)))"
proof -
  let ?s2 = "(log INFO (ConnectedTo (broker_host (config s))) s)\<lparr>connected_event := True\<rparr>"
  let ?ts = "subscribe_topics (config s)"
  have c: "config ?s2 = config s" "calls ?s2 = calls s" by simp_all
  have run: "on_connect ev s 0 = subscribe_all ev ?s2 ?ts"
    by (cases "?ts = []") (simp_all add: on_connect_def Let_def)
  have general: "calls (fst (on_connect ev s 0)) =
       calls s @ map (\<lambda>t. Subscribe t (qos (config s)))
         (take (Suc (length (takeWhile (\<lambda>t. client_subscribe ev t (qos (config s)) = None) ?ts))) ?ts)
     \<and> snd (on_connect ev s 0) =
       (case dropWhile (\<lambda>t. client_subscribe ev t (qos (config s)) = None) ?ts of
          [] \<Rightarrow> None
        | t # rest \<Rightarrow> client_subscribe ev t (qos (config s)))"
    using subscribe_all_calls [of ev ?s2 ?ts] by (simp only: run c)
  have "calls (fst (on_connect ev s 0)) = calls s @ map (\<lambda>t. Subscribe t (qos (config s))) ?ts
      \<and> length (calls (fst (on_connect ev s 0))) = length (calls s) + length ?ts
      \<and> snd (on_connect ev s 0) = None"
    if all: "list_all (\<lambda>t. client_subscribe ev t (qos (config s)) = None) ?ts"
  proof -
    have "list_all (\<lambda>t. client_subscribe ev t (qos (config ?s2)) = None) ?ts"
      using all by simp
    then have "subscribe_all ev ?s2 ?ts =
       (?s2\<lparr>logged := logged ?s2 @ map (\<lambda>t. (INFO, SubscribedTo t)) ?ts,
            calls := calls ?s2 @ map (\<lambda>t. Subscribe t (qos (config ?s2))) ?ts\<rparr>, None)"
      by (rule subscribe_all_accepted)
    then show ?thesis by (simp add: run)
  qed
  with general show ?thesis by blast
qed

theorem on_connect_subscribes_witness:
  "list_all (\<lambda>t. client_subscribe demo_env t (qos (config (init demo_config))) = None)
     (subscribe_topics (config (init demo_config)))
   \<and> calls (fst (on_connect demo_env (init demo_config) 0)) =
       [Subscribe ''flet-mqtt-demo/light/state'' 0, Subscribe ''flet-mqtt-demo/light/set'' 0]
   \<and> snd (on_connect demo_env (init demo_config) 0) = None
   \<and> list_all (\<lambda>t. client_subscribe demo_env t (qos (config (init quiet_config))) = None)
       (subscribe_topics (config (init quiet_config)))
   \<and> calls (fst (on_connect demo_env (init quiet_config) 0)) = []
   \<and> calls (fst (on_connect demo_env (init (demo_config\<lparr>qos := 2\<rparr>)) 0)) =
       [Subscribe ''flet-mqtt-demo/light/state'' 2, Subscribe ''flet-mqtt-demo/light/set'' 2]
   \<and> calls (fst (on_connect demo_env (init (gap_config\<lparr>qos := 1\<rparr>)) 0)) =
       [Subscribe ''a/b'' 1, Subscribe [] 1]
   \<and> snd (on_connect demo_env (init (gap_config\<lparr>qos := 1\<rparr>)) 0) =
       Some (ValueError ''Invalid topic.'')"
  using on_connect_subscribes [of demo_env "init demo_config"]
    on_connect_subscribes [of demo_env "init quiet_config"]
    on_connect_subscribes [of demo_env "init (demo_config\<lparr>qos := 2\<rparr>)"]
    on_connect_subscribes [of demo_env "init (gap_config\<lparr>qos := 1\<rparr>)"]
  by (simp add: init_def demo_config_def quiet_config_def gap_config_def demo_env_def)

text \<open>
  The claim as stated fails for a configuration of three topics whose second is the
  empty string: the protocol client raises \<^verbatim>\<open>ValueError\<close> for it, two requests are
  issued, and the third topic gets none.
\<close>

theorem on_connect_subscribes_counterexample:
  "length (subscribe_topics (config (init gap_config))) = 3
   \<and> calls (fst (on_connect demo_env (init gap_config) 0)) = [Subscribe ''a/b'' 0, Subscribe [] 0]
   \<and> snd (on_connect demo_env (init gap_config) 0) = Some (ValueError ''Invalid topic.'')"
  by (simp add: init_def demo_config_def gap_config_def demo_env_def on_connect_def
      Let_def log_def issue_def)

section \<open>What each operation leaves alone\<close>

lemma subscribe_all_keeps:
  "connected_event (fst (subscribe_all ev s ts)) = connected_event s"
  "is_running (fst (subscribe_all ev s ts)) = is_running s"
  "tasks (fst (subscribe_all ev s ts)) = tasks s"
  "fresh (fst (subscribe_all ev s ts)) = fresh s"
  "handled (fst (subscribe_all ev s ts)) = handled s"
  "config (fst (subscribe_all ev s ts)) = config s"
  by (induction ts arbitrary: s; simp add: Let_def split: option.split)+

lemma subscribe_all_no_publish:
  "filter is_Publish (calls (fst (subscribe_all ev s ts))) = filter is_Publish (calls s)"
  by (induction ts arbitrary: s) (simp_all add: Let_def split: option.split)

lemma on_connect_keeps:
  "is_running (fst (on_connect ev s rc)) = is_running s"
  "tasks (fst (on_connect ev s rc)) = tasks s"
  "fresh (fst (on_connect ev s rc)) = fresh s"
  "handled (fst (on_connect ev s rc)) = handled s"
  "config (fst (on_connect ev s rc)) = config s"
  "filter is_Publish (calls (fst (on_connect ev s rc))) = filter is_Publish (calls s)"
  by (simp_all add: on_connect_def Let_def subscribe_all_keeps subscribe_all_no_publish)

lemma on_connect_event:
  "connected_event (fst (on_connect ev s rc)) = (rc = 0)"
  by (simp add: on_connect_def Let_def subscribe_all_keeps)

lemma on_message_internal_keeps:
  "connected_event (fst (on_message_internal ev s m)) = connected_event s"
  "is_running (fst (on_message_internal ev s m)) = is_running s"
  "tasks (fst (on_message_internal ev s m)) = tasks s"
  "fresh (fst (on_message_internal ev s m)) = fresh s"
  "config (fst (on_message_internal ev s m)) = config s"
  "calls (fst (on_message_internal ev s m)) = calls s"
  by (simp_all add: on_message_internal_def on_message_def Let_def split: option.split)

lemma on_disconnect_keeps:
  "is_running (on_disconnect s rc) = is_running s"
  "tasks (on_disconnect s rc) = tasks s"
  "fresh (on_disconnect s rc) = fresh s"
  "handled (on_disconnect s rc) = handled s"
  "config (on_disconnect s rc) = config s"
  "calls (on_disconnect s rc) = calls s"
  "connected_event (on_disconnect s rc) = False"
  by (simp_all add: on_disconnect_def Let_def)

lemma start_keeps:
  "config (fst (start ev s)) = config s"
  "filter is_Publish (calls (fst (start ev s))) = filter is_Publish (calls s)"
  "handled (fst (start ev s)) = handled s"
  by (simp_all add: start_def start_except_def Let_def
      split: option.split run_task_outcome.split)


lemma stop_keeps:
  "config (fst (stop s)) = config s"
  "filter is_Publish (calls (fst (stop s))) = filter is_Publish (calls s)"
  "handled (fst (stop s)) = handled s"
  "tasks (fst (stop s)) = tasks s"
  by (simp_all add: stop_def Let_def)


lemma client_loop_keeps:
  "config (fst (client_loop ev s n)) = config s"
  "filter is_Publish (calls (fst (client_loop ev s n))) = filter is_Publish (calls s)"
  "is_running (fst (client_loop ev s n)) = is_running s"
  "tasks (fst (client_loop ev s n)) = tasks s"
  by (cases n; simp add: on_connect_keeps on_message_internal_keeps on_disconnect_keeps)+

lemma tick_keeps:
  "config (fst (tick ev s n)) = config s"
  "filter is_Publish (calls (fst (tick ev s n))) = filter is_Publish (calls s)"
  "is_running (fst (tick ev s n)) = is_running s"
proof -
  obtain s1 r where cl: "client_loop ev (enter_loop s) n = (s1, r)"
    by (cases "client_loop ev (enter_loop s) n")
  have "config s1 = config s" "filter is_Publish (calls s1) = filter is_Publish (calls s)"
    "is_running s1 = is_running s"
    using client_loop_keeps[of ev "enter_loop s" n] by (simp_all add: cl)
  then show "config (fst (tick ev s n)) = config s"
    "filter is_Publish (calls (fst (tick ev s n))) = filter is_Publish (calls s)"
    "is_running (fst (tick ev s n)) = is_running s"
    by (simp_all add: tick_def Let_def cl split: option.split)
qed

lemma step_keeps:
  "config (fst (step ev s e)) = config s"
  "filter is_Publish (calls (fst (step ev s e))) = filter is_Publish (calls s)"
  by (cases e; simp add: tick_keeps stop_keeps start_keeps)+

lemma run_keeps:
  "config (run ev s es) = config s"
  "filter is_Publish (calls (run ev s es)) = filter is_Publish (calls s)"
  by (induction es arbitrary: s; simp add: step_keeps)+

section \<open>The connected condition\<close>

lemma client_loop_sets:
  "connected_event (fst (client_loop ev s n)) \<Longrightarrow> \<not> connected_event s \<Longrightarrow> n = ConnAck 0"
  by (cases n) (simp_all add: on_connect_event on_message_internal_keeps on_disconnect_keeps)

lemma tick_sets:
  assumes "connected_event (fst (tick ev s n))" and "\<not> connected_event s"
  shows "n = ConnAck 0 \<and> is_running s \<and> 0 < tasks s"
proof -
  let ?s0 = "enter_loop s"
  have s0: "\<not> connected_event ?s0" and r0: "is_running ?s0 = is_running s"
    using assms(2) by simp_all
  have live: "0 < tasks s"
  proof (rule ccontr)
    assume "\<not> 0 < tasks s"
    with assms show False by (simp add: tick_def)
  qed
  have running: "is_running s"
  proof (rule ccontr)
    assume "\<not> is_running s"
    with assms live show False by (simp add: tick_def Let_def)
  qed
  from live running r0 have "tick ev s n =
      (case client_loop ev ?s0 n of
         (s1, None) \<Rightarrow> (s1, None)
       | (s1, Some e) \<Rightarrow> (s1\<lparr>tasks := tasks s1 - 1\<rparr>, Some e))"
    by (simp add: tick_def Let_def)
  with assms(1) have "connected_event (fst (client_loop ev ?s0 n))"
    by (simp split: prod.splits option.splits)
  from this s0 have "n = ConnAck 0" by (rule client_loop_sets)
  with live running show ?thesis by simp
qed

lemma stop_event: "connected_event (fst (stop s)) \<Longrightarrow> connected_event s \<and> \<not> is_running s"
  by (simp add: stop_def Let_def split: if_splits)

lemma start_event: "connected_event (fst (start ev s)) \<Longrightarrow> connected_event s \<and> is_running s"
  by (auto simp: start_def start_except_def Let_def
      split: if_splits option.splits run_task_outcome.splits)

lemma step_sets:
  assumes "connected_event (fst (step ev s e))" and "\<not> connected_event s"
  shows "e = Tick (ConnAck 0) \<and> is_running s \<and> 0 < tasks s"
proof (cases e)
  case (Tick n)
  with assms show ?thesis using tick_sets[of ev s n] by simp
next
  case CallStop
  with assms show ?thesis using stop_event[of s] by simp
next
  case CallStart
  with assms show ?thesis using start_event[of ev s] by simp
qed

lemma run_sets:
  "connected_event (run ev s es) \<Longrightarrow> \<not> connected_event s \<Longrightarrow> Tick (ConnAck 0) \<in> set es"
proof (induction es arbitrary: s)
  case Nil
  then show ?case by simp
next
  case (Cons e es)
  show ?case
  proof (cases "connected_event (fst (step ev s e))")
    case True
    with Cons.prems(2) have "e = Tick (ConnAck 0)" using step_sets by blast
    then show ?thesis by simp
  next
    case False
    with Cons.prems(1) have "Tick (ConnAck 0) \<in> set es"
      using Cons.IH[of "fst (step ev s e)"] by simp
    then show ?thesis by simp
  qed
qed

lemma tick_delivers:
  assumes "is_running s" and "0 < tasks s"
  shows "connected_event (fst (tick ev s n)) = connected_event (fst (client_loop ev (enter_loop s) n))"
proof -
  obtain s1 r where cl: "client_loop ev (enter_loop s) n = (s1, r)"
    by (cases "client_loop ev (enter_loop s) n")
  with assms show ?thesis
    by (cases r) (simp_all add: tick_def Let_def)
qed

text \<open>
  C2. The connected condition is set by a connect acknowledgement with result code 0
  and by nothing else: an acknowledgement with another code clears it, a disconnect
  event clears it whatever its code, and \<^verbatim>\<open>stop()\<close> clears it when the client is
  running; the running background task delivers each of these events to its callback.
  A step of the scheduler that finds it clear and leaves it set is a turn of the
  running background task that delivers an acknowledgement with code 0, so a schedule
  that raises it holds such a step.
\<close>

theorem connected_event_lifecycle:
  "connected_event (fst (on_connect ev s 0))
   \<and> (rc \<noteq> 0 \<longrightarrow> \<not> connected_event (fst (on_connect ev s rc)))
   \<and> \<not> connected_event (on_disconnect s rc)
   \<and> (is_running s \<longrightarrow> \<not> connected_event (fst (stop s)))
   \<and> (\<not> connected_event s \<and> connected_event (fst (step ev s e))
        \<longrightarrow> e = Tick (ConnAck 0) \<and> is_running s \<and> 0 < tasks s)
   \<and> (\<not> connected_event s \<and> connected_event (run ev s es) \<longrightarrow> Tick (ConnAck 0) \<in> set es)
   \<and> (is_running s \<and> 0 < tasks s
        \<longrightarrow> connected_event (fst (step ev s (Tick (ConnAck 0))))
          \<and> (rc \<noteq> 0 \<longrightarrow> \<not> connected_event (fst (step ev s (Tick (ConnAck rc)))))
          \<and> \<not> connected_event (fst (step ev s (Tick (ConnLost rc))))
          \<and> \<not> connected_event (fst (step ev s CallStop)))"
proof -
  have "is_running s \<longrightarrow> \<not> connected_event (fst (stop s))"
    by (simp add: stop_def Let_def)
  moreover have "\<not> connected_event s \<and> connected_event (fst (step ev s e))
        \<longrightarrow> e = Tick (ConnAck 0) \<and> is_running s \<and> 0 < tasks s"
    using step_sets by blast
  moreover have "\<not> connected_event s \<and> connected_event (run ev s es) \<longrightarrow> Tick (ConnAck 0) \<in> set es"
    using run_sets by blast
  moreover have "is_running s \<and> 0 < tasks s
        \<longrightarrow> connected_event (fst (step ev s (Tick (ConnAck 0))))
          \<and> (rc \<noteq> 0 \<longrightarrow> \<not> connected_event (fst (step ev s (Tick (ConnAck rc)))))
          \<and> \<not> connected_event (fst (step ev s (Tick (ConnLost rc))))
          \<and> \<not> connected_event (fst (step ev s CallStop))"
    by (simp add: tick_delivers on_connect_event on_disconnect_keeps stop_def Let_def)
  ultimately show ?thesis
    by (simp add: on_connect_event on_disconnect_keeps)
qed

theorem connected_event_lifecycle_witness:
  "\<not> connected_event started
   \<and> connected_event (fst (on_connect demo_env started 0))
   \<and> connected_event (fst (step demo_env started (Tick (ConnAck 0))))
   \<and> connected_event (run demo_env started [Tick NoPacket, Tick (ConnAck 0)])
   \<and> Tick (ConnAck 0) \<in> set [Tick NoPacket, Tick (ConnAck 0)]
   \<and> connected_event online \<and> is_running online \<and> 0 < tasks online
   \<and> (5::int) \<noteq> 0
   \<and> \<not> connected_event (fst (on_connect demo_env online 5))
   \<and> \<not> connected_event (on_disconnect online 5)
   \<and> \<not> connected_event (fst (stop online))
   \<and> \<not> connected_event (fst (step demo_env online (Tick (ConnAck 5))))
   \<and> \<not> connected_event (fst (step demo_env online (Tick (ConnLost 5))))
   \<and> \<not> connected_event (fst (step demo_env online (Tick (ConnLost 0))))
   \<and> connected_event (fst (step demo_env online (Tick (Inbound light_on))))"
  using connected_event_lifecycle [of demo_env started 0 "Tick (ConnAck 0)" "[Tick NoPacket, Tick (ConnAck 0)]"]
    connected_event_lifecycle [of demo_env online 5 CallStop "[]"]
    connected_event_lifecycle [of demo_env online 0 CallStop "[]"]
  by (simp add: started_eq online_eq tick_def enter_loop_def on_connect_def on_disconnect_def
        on_message_internal_def on_message_def light_on_def
        demo_env_def demo_config_def Let_def log_def issue_def)

section \<open>Starting\<close>

text \<open>
  C8. When the protocol client's \<^verbatim>\<open>connect\<close> raises in \<^verbatim>\<open>start()\<close>, the
  exception is caught and logged at error level, \<^verbatim>\<open>start()\<close> returns without raising,
  \<^verbatim>\<open>_is_running\<close> stays false and no background task is scheduled: beyond the two
  log records and the connect request, the call only clears the connected condition.
\<close>

theorem start_connect_fails:
  assumes "\<not> is_running s"
    and "client_connect ev (broker_host (config s)) (broker_port (config s))
           (keepalive (config s)) = Some e"
  shows "start ev s =
           (s\<lparr>connected_event := False,
              logged := logged s @ [(INFO, Starting),
                (ERROR, if is_OSError e then CouldNotConnect (broker_host (config s)) e
                        else UnexpectedStartError e)],
              calls := calls s @ [Connect (broker_host (config s)) (broker_port (config s))
                                    (keepalive (config s))]\<rparr>, None)
         \<and> snd (start ev s) = None
         \<and> \<not> is_running (fst (start ev s))
         \<and> tasks (fst (start ev s)) = tasks s"
  using assms by (simp add: start_def start_except_def Let_def log_def issue_def)

theorem start_connect_fails_witness:
  "\<not> is_running (init demo_config)
   \<and> client_connect unreachable_env (broker_host (config (init demo_config)))
        (broker_port (config (init demo_config))) (keepalive (config (init demo_config)))
       = Some (OSError ''[Errno -2] Name or service not known'')
   \<and> snd (start unreachable_env (init demo_config)) = None
   \<and> \<not> is_running (fst (start unreachable_env (init demo_config)))
   \<and> tasks (fst (start unreachable_env (init demo_config))) = 0
   \<and> logged (fst (start unreachable_env (init demo_config))) =
       [(INFO, Starting),
        (ERROR, CouldNotConnect ''broker.hivemq.com''
                  (OSError ''[Errno -2] Name or service not known''))]"
  using start_connect_fails [of "init demo_config" unreachable_env
      "OSError ''[Errno -2] Name or service not known''"]
  by (simp add: init_def unreachable_env_def demo_env_def demo_config_def)

section \<open>Dispatching inbound messages\<close>

text \<open>
  C10. For a payload that is not valid UTF-8, \<^verbatim>\<open>msg.payload.decode()\<close> in the
  argument of the first log statement raises \<^verbatim>\<open>UnicodeDecodeError\<close>: nothing is
  logged, the handler is not called, and the exception leaves
  \<^verbatim>\<open>_on_message_internal\<close>, since the statement stands before the \<^verbatim>\<open>try\<close>. A
  running background task that delivers such a message ends with that exception.
\<close>

theorem undecodable_payload_raises:
  assumes "utf8_decode (payload m) = None"
  shows "on_message_internal ev s m = (s, Some UnicodeDecodeError)
         \<and> handled (fst (on_message_internal ev s m)) = handled s
         \<and> logged (fst (on_message_internal ev s m)) = logged s
         \<and> (if is_running s \<and> 0 < tasks s
             then tick ev s (Inbound m) = ((enter_loop s)\<lparr>tasks := tasks s - 1\<rparr>, Some UnicodeDecodeError)
             else snd (tick ev s (Inbound m)) = None)"
  using assms by (simp add: on_message_internal_def tick_def Let_def)

theorem undecodable_payload_raises_witness:
  "utf8_decode (payload garbled) = None
   \<and> on_message_internal failing_env online garbled = (online, Some UnicodeDecodeError)
   \<and> is_running online \<and> 0 < tasks online
   \<and> tick failing_env online (Inbound garbled) = (online\<lparr>tasks := 0\<rparr>, Some UnicodeDecodeError)"
  using undecodable_payload_raises [of garbled failing_env online]
  by (simp add: garbled_def online_eq enter_loop_def)





section \<open>Waiting for the connection\<close>

lemma run_append: "run ev s (xs @ ys) = run ev (run ev s xs) ys"
  by (induction xs arbitrary: s) simp_all

lemma run_take_drop: "run ev (run ev s (take d es)) (drop d es) = run ev s es"
  using run_append [of ev s "take d es" "drop d es"] by simp

lemma registered_keeps:
  "config (fst (registered ev s l es)) = config s"
  "filter is_Publish (calls (fst (registered ev s l es))) = filter is_Publish (calls s)"
  by (induction es arbitrary: s; simp add: Let_def step_keeps run_keeps)+

lemma registered_timeout:
  "\<not> snd (registered ev s l es) \<Longrightarrow> fst (registered ev s l es) = run ev s es"
  by (induction es arbitrary: s) (simp_all add: Let_def split: if_splits)

text \<open>A registered wait is woken by the first step after which the event is set.\<close>

lemma registered_iff:
  "snd (registered ev s l es) =
     (\<exists>n. 0 < n \<and> n \<le> length es \<and> connected_event (run ev s (take n es)))"
proof (induction es arbitrary: s)
  case Nil
  show ?case by simp
next
  case (Cons e es)
  let ?s1 = "fst (step ev s e)"
  show ?case
  proof (cases "connected_event ?s1")
    case True
    then have "0 < Suc 0 \<and> Suc 0 \<le> length (e # es)
        \<and> connected_event (run ev s (take (Suc 0) (e # es)))"
      by simp
    then have "\<exists>n. 0 < n \<and> n \<le> length (e # es) \<and> connected_event (run ev s (take n (e # es)))"
      by blast
    with True show ?thesis by (simp add: Let_def)
  next
    case False
    have "(\<exists>n. 0 < n \<and> n \<le> length (e # es) \<and> connected_event (run ev s (take n (e # es))))
        = (\<exists>n. 0 < n \<and> n \<le> length es \<and> connected_event (run ev ?s1 (take n es)))"
      (is "?L = ?R")
    proof
      assume ?L
      then obtain n where n: "0 < n" "n \<le> length (e # es)"
        "connected_event (run ev s (take n (e # es)))"
        by blast
      then obtain k where k: "n = Suc k" by (cases n) auto
      with n False have "0 < k" by (cases k) auto
      with n k show ?R by auto
    next
      assume ?R
      then obtain n where "0 < n" "n \<le> length es" "connected_event (run ev ?s1 (take n es))"
        by blast
      then have "0 < Suc n \<and> Suc n \<le> length (e # es)
          \<and> connected_event (run ev s (take (Suc n) (e # es)))"
        by simp
      then show ?L by blast
    qed
    with False show ?thesis by (simp add: Let_def Cons.IH)
  qed
qed

lemma wait_connected_keeps:
  "config (fst (wait_connected ev s d l es)) = config s"
  "filter is_Publish (calls (fst (wait_connected ev s d l es))) = filter is_Publish (calls s)"
  by (simp_all add: wait_connected_def Let_def registered_keeps run_keeps)

lemma wait_timeout_run:
  assumes "\<not> snd (wait_connected ev s d l es)"
  shows "fst (wait_connected ev s d l es) = run ev s es"
proof -
  let ?s0 = "run ev s (take d es)"
  from assms have off: "\<not> connected_event ?s0"
    by (auto simp: wait_connected_def Let_def)
  with assms have "\<not> snd (registered ev ?s0 l (drop d es))"
    by (simp add: wait_connected_def Let_def)
  then have "fst (registered ev ?s0 l (drop d es)) = run ev ?s0 (drop d es)"
    by (rule registered_timeout)
  with off show ?thesis by (simp add: wait_connected_def Let_def run_take_drop)
qed

text \<open>
  When the wait returns: the event is set at the first test, after \<open>d\<close> steps (or at the
  end of a window shorter than that), or after a later step of the window.
\<close>

lemma wait_connected_iff:
  "snd (wait_connected ev s d l es) =
     (\<exists>n. min d (length es) \<le> n \<and> n \<le> length es \<and> connected_event (run ev s (take n es)))"
proof -
  let ?s0 = "run ev s (take d es)"
  let ?m = "min d (length es)"
  have s0: "?s0 = run ev s (take ?m es)" by (simp add: min_def)
  have later: "run ev ?s0 (take k (drop d es)) = run ev s (take (d + k) es)" for k
    using run_append [of ev s "take d es" "take k (drop d es)"] by (simp add: take_add)
  show ?thesis
  proof (cases "connected_event ?s0")
    case True
    then have "?m \<le> ?m \<and> ?m \<le> length es \<and> connected_event (run ev s (take ?m es))"
      using s0 by simp
    then have "\<exists>n. ?m \<le> n \<and> n \<le> length es \<and> connected_event (run ev s (take n es))"
      by blast
    with True show ?thesis by (simp add: wait_connected_def Let_def)
  next
    case False
    have "(\<exists>k. 0 < k \<and> k \<le> length (drop d es) \<and> connected_event (run ev ?s0 (take k (drop d es))))
        = (\<exists>n. ?m \<le> n \<and> n \<le> length es \<and> connected_event (run ev s (take n es)))"
      (is "?L = ?R")
    proof
      assume ?L
      then obtain k where k: "0 < k" "k \<le> length (drop d es)"
        "connected_event (run ev ?s0 (take k (drop d es)))"
        by blast
      then have "?m \<le> d + k \<and> d + k \<le> length es \<and> connected_event (run ev s (take (d + k) es))"
        by (simp add: later)
      then show ?R by blast
    next
      assume ?R
      then obtain n where n: "?m \<le> n" "n \<le> length es" "connected_event (run ev s (take n es))"
        by blast
      with False s0 have "n \<noteq> ?m" by auto
      with n have less: "?m < n" by simp
      with n have d: "d < n" by (simp add: min_def split: if_splits)
      then have "0 < n - d \<and> n - d \<le> length (drop d es)
          \<and> connected_event (run ev ?s0 (take (n - d) (drop d es)))"
        using n by (simp add: later)
      then show ?L by blast
    qed
    with False show ?thesis by (simp add: wait_connected_def Let_def registered_iff)
  qed
qed

text \<open>An event that is set at no moment of the window lets the wait run into its timeout.\<close>

lemma never_set_times_out:
  assumes "list_all (\<lambda>n. \<not> connected_event (run ev s (take n es))) [0..<Suc (length es)]"
  shows "\<not> snd (wait_connected ev s d l es)"
proof
  assume "snd (wait_connected ev s d l es)"
  then obtain n where "n \<le> length es" "connected_event (run ev s (take n es))"
    unfolding wait_connected_iff by blast
  moreover from assms have "\<forall>n \<in> set [0..<Suc (length es)]. \<not> connected_event (run ev s (take n es))"
    unfolding list_all_iff .
  ultimately show False by auto
qed

section \<open>Publishing\<close>

lemma publish_timeout:
  assumes "\<not> snd (wait_connected ev s d l es)"
  shows "publish ev s d l es t p qa r =
           (log ERROR PublishNotConnected (fst (wait_connected ev s d l es)), None)"
proof -
  obtain s1 b where w: "wait_connected ev s d l es = (s1, b)"
    by (cases "wait_connected ev s d l es")
  with assms have "\<not> b" by simp
  with w show ?thesis by (simp add: publish_def)
qed

lemma publish_connected:
  assumes "snd (wait_connected ev s d l es)"
  shows "publish ev s d l es t p qa r =
     (case (if is_dict_or_list p
            then map_sum id (\<lambda>js. PStr (str js)) (json_dumps (stack_room ev) p)
            else Inr p) of
        Inl e \<Rightarrow> (fst (wait_connected ev s d l es), Some e)
      | Inr p1 \<Rightarrow>
          let qos_level = (case qa of Some q \<Rightarrow> q | None \<Rightarrow> qos (config s));
              s2 = issue (Publish t p1 qos_level r) (fst (wait_connected ev s d l es))
          in (case client_publish ev t p1 qos_level r of
                Inl e \<Rightarrow> (s2, Some e)
              | Inr rc \<Rightarrow>
                  if rc = MQTT_ERR_SUCCESS
                  then (case str_raises (repr_room ev) p1 of
                          Some e \<Rightarrow> (s2, Some e)
                        | None \<Rightarrow> (log INFO (QueuedPublish t p1) s2, None))
                  else (log ERROR (FailedQueuePublish t) s2, None)))"
proof -
  obtain s1 b where w: "wait_connected ev s d l es = (s1, b)"
    by (cases "wait_connected ev s d l es")
  with assms have b: "b" by simp
  have "config s1 = config s"
    using wait_connected_keeps(1) [of ev s d l es] by (simp add: w)
  then have c: "(case qa of Some q \<Rightarrow> q | None \<Rightarrow> qos (config s1))
      = (case qa of Some q \<Rightarrow> q | None \<Rightarrow> qos (config s))"
    by (simp split: option.split)
  show ?thesis
  proof (cases "if is_dict_or_list p
      then map_sum id (\<lambda>js. PStr (str js)) (json_dumps (stack_room ev) p) else Inr p")
    case (Inl e)
    then show ?thesis using b by (simp add: publish_def w)
  next
    case (Inr p1)
    then show ?thesis using b c
      by (cases "client_publish ev t p1 (case qa of Some q \<Rightarrow> q | None \<Rightarrow> qos (config s)) r")
        (simp_all add: publish_def w Let_def)
  qed
qed

lemma publish_sends:
  "filter is_Publish (calls (fst (publish ev s d l es t p qa r))) =
     filter is_Publish (calls s) @
       (if snd (wait_connected ev s d l es)
        then (case (if is_dict_or_list p
                    then map_sum id (\<lambda>js. PStr (str js)) (json_dumps (stack_room ev) p)
                    else Inr p) of
                Inl e \<Rightarrow> []
              | Inr p1 \<Rightarrow> [Publish t p1 (case qa of Some q \<Rightarrow> q | None \<Rightarrow> qos (config s)) r])
        else [])"
proof (cases "snd (wait_connected ev s d l es)")
  case False
  then show ?thesis by (simp add: publish_timeout wait_connected_keeps)
next
  case True
  then show ?thesis
    by (simp add: publish_connected Let_def wait_connected_keeps split: sum.split option.split)
qed


section \<open>Publishing without a connection\<close>

lemma refused_run:
  "run demo_env started [Tick NoPacket, Tick (ConnAck 5)] =
     \<lparr>config = demo_config, connected_event = False, is_running = True,
      logged = [(INFO, Starting), (INFO, LoopStarted), (ERROR, ConnectFailed 5)],
      calls = [Connect ''broker.hivemq.com'' 1883 60], handled = [], tasks = 1, fresh = 0\<rparr>"
  by (simp add: started_eq tick_def enter_loop_def on_connect_def Let_def log_def issue_def)

lemma refused_never_set:
  "list_all (\<lambda>n. \<not> connected_event (run demo_env started (take n [Tick NoPacket, Tick (ConnAck 5)])))
     [0..<Suc (length [Tick NoPacket, Tick (ConnAck 5)])]"
  by (simp add: upt_rec started_eq tick_def enter_loop_def on_connect_def Let_def log_def issue_def)

lemma dropped_run:
  "run demo_env online [CallStop] =
     online\<lparr>connected_event := False, is_running := False,
       logged := logged online @ [(INFO, Stopping)], calls := calls online @ [Disconnect]\<rparr>"
  by (simp add: online_eq stop_def Let_def log_def issue_def)

lemma dropped_wait: "wait_connected demo_env online 1 0 [CallStop] = (run demo_env online [CallStop], False)"
  by (simp add: wait_connected_def Let_def online_eq stop_def log_def issue_def)

text \<open>
  C5. A \<^verbatim>\<open>publish\<close> whose wait ends with the timeout, as it does when the connected
  condition is false at the call and at every later moment of the window, logs its
  error and returns without raising and without a publish request to the protocol
  client; the state it leaves is the one the schedule of the window produced plus that
  log record, and whatever the scheduler runs later issues no publish request either.
\<close>

theorem publish_times_out:
  assumes "\<not> snd (wait_connected ev s d l es)"
  shows "publish ev s d l es t p qa r = (log ERROR PublishNotConnected (run ev s es), None)
         \<and> filter is_Publish (calls (fst (publish ev s d l es t p qa r))) = filter is_Publish (calls s)
         \<and> filter is_Publish (calls (run ev (fst (publish ev s d l es t p qa r)) later))
             = filter is_Publish (calls s)"
  using assms by (simp add: publish_timeout wait_timeout_run run_keeps)

theorem publish_times_out_witness:
  "list_all (\<lambda>n. \<not> connected_event (run demo_env started (take n [Tick NoPacket, Tick (ConnAck 5)])))
     [0..<Suc (length [Tick NoPacket, Tick (ConnAck 5)])]
   \<and> \<not> snd (wait_connected demo_env started 1 1 [Tick NoPacket, Tick (ConnAck 5)])
   \<and> publish demo_env started 1 1 [Tick NoPacket, Tick (ConnAck 5)] command_topic state_on None False
       = (\<lparr>config = demo_config, connected_event = False, is_running = True,
           logged = [(INFO, Starting), (INFO, LoopStarted), (ERROR, ConnectFailed 5),
                     (ERROR, PublishNotConnected)],
           calls = [Connect ''broker.hivemq.com'' 1883 60], handled = [], tasks = 1, fresh = 0\<rparr>,
          None)
   \<and> filter is_Publish (calls (run demo_env (fst (publish demo_env started 1 1
        [Tick NoPacket, Tick (ConnAck 5)] command_topic state_on None False))
        [Tick (ConnAck 0), Tick NoPacket])) = []
   \<and> \<not> snd (wait_connected demo_env online 1 0 [CallStop])
   \<and> logged (fst (publish demo_env online 1 0 [CallStop] command_topic state_on None False))
       = logged online @ [(INFO, Stopping), (ERROR, PublishNotConnected)]
   \<and> filter is_Publish (calls (fst (publish demo_env online 1 0 [CallStop]
        command_topic state_on None False))) = []"
proof -
  have h: "\<not> snd (wait_connected demo_env started 1 1 [Tick NoPacket, Tick (ConnAck 5)])"
    using refused_never_set by (rule never_set_times_out)
  have g: "\<not> snd (wait_connected demo_env online 1 0 [CallStop])"
    using dropped_wait by simp
  note a = publish_times_out [OF h, of command_topic state_on None False
      "[Tick (ConnAck 0), Tick NoPacket]"]
  note b = publish_times_out [OF g, of command_topic state_on None False "[]"]
  have fs: "filter is_Publish (calls started) = []" by (simp add: started_eq)
  have fo: "filter is_Publish (calls online) = []" by (simp add: online_eq)
  have c3: "publish demo_env started 1 1 [Tick NoPacket, Tick (ConnAck 5)] command_topic state_on
        None False
       = (\<lparr>config = demo_config, connected_event = False, is_running = True,
           logged = [(INFO, Starting), (INFO, LoopStarted), (ERROR, ConnectFailed 5),
                     (ERROR, PublishNotConnected)],
           calls = [Connect ''broker.hivemq.com'' 1883 60], handled = [], tasks = 1, fresh = 0\<rparr>,
          None)"
    unfolding a [THEN conjunct1] refused_run by (simp add: log_def)
  have c4: "filter is_Publish (calls (run demo_env (fst (publish demo_env started 1 1
        [Tick NoPacket, Tick (ConnAck 5)] command_topic state_on None False))
        [Tick (ConnAck 0), Tick NoPacket])) = []"
    unfolding a [THEN conjunct2, THEN conjunct2] by (rule fs)
  have c6: "logged (fst (publish demo_env online 1 0 [CallStop] command_topic state_on None False))
       = logged online @ [(INFO, Stopping), (ERROR, PublishNotConnected)]"
    unfolding b [THEN conjunct1] dropped_run by (simp add: log_def)
  have c7: "filter is_Publish (calls (fst (publish demo_env online 1 0 [CallStop]
        command_topic state_on None False))) = []"
    unfolding b [THEN conjunct2, THEN conjunct1] by (rule fo)
  show ?thesis
    by (intro conjI refused_never_set h c3 c4 g c6 c7)
qed

section \<open>A stop during the wait\<close>

lemma stopped_step:
  assumes "\<not> is_running s" and "\<not> connected_event s" and "e \<noteq> CallStart"
  shows "\<not> is_running (fst (step ev s e)) \<and> \<not> connected_event (fst (step ev s e))"
proof (cases e)
  case (Tick n)
  with assms show ?thesis by (simp add: tick_def Let_def)
next
  case CallStop
  with assms show ?thesis by (simp add: stop_def)
next
  case CallStart
  with assms show ?thesis by simp
qed

lemma stopped_run:
  assumes "\<not> is_running s" and "\<not> connected_event s" and "list_all (\<lambda>e. e \<noteq> CallStart) es"
  shows "\<not> is_running (run ev s es) \<and> \<not> connected_event (run ev s es)"
  using assms
proof (induction es arbitrary: s)
  case Nil
  then show ?case by simp
next
  case (Cons e es)
  from Cons.prems have e: "e \<noteq> CallStart" and es: "list_all (\<lambda>e. e \<noteq> CallStart) es"
    by simp_all
  from Cons.prems(1,2) e
  have "\<not> is_running (fst (step ev s e)) \<and> \<not> connected_event (fst (step ev s e))"
    by (rule stopped_step)
  then show ?case using es Cons.IH by simp
qed

lemma pending_run:
  assumes "\<not> snd (wait_connected ev s d l pre)"
  shows "\<not> connected_event (run ev s pre)"
proof
  assume "connected_event (run ev s pre)"
  then have "min d (length pre) \<le> length pre \<and> length pre \<le> length pre
      \<and> connected_event (run ev s (take (length pre) pre))"
    by simp
  then have "snd (wait_connected ev s d l pre)"
    unfolding wait_connected_iff by blast
  with assms show False by simp
qed

lemma after_stop_run:
  "run demo_env started ([Tick NoPacket] @ CallStop # [Tick (ConnAck 0), CallStop, Tick NoPacket]) =
     \<lparr>config = demo_config, connected_event = False, is_running = False,
      logged = [(INFO, Starting), (INFO, LoopStarted), (INFO, Stopping), (INFO, LoopStopped)],
      calls = [Connect ''broker.hivemq.com'' 1883 60, Disconnect], handled = [],
      tasks = 0, fresh = 0\<rparr>"
  by (simp add: started_eq stop_def tick_def enter_loop_def Let_def log_def issue_def)

lemma pending_wait:
  "wait_connected demo_env started 1 1 [Tick NoPacket] = (run demo_env started [Tick NoPacket], False)"
  by (simp add: wait_connected_def Let_def started_eq tick_def enter_loop_def log_def)

text \<open>
  C9. \<^verbatim>\<open>stop()\<close> never sets the connected condition, and it leaves the client not
  running. So when \<^verbatim>\<open>stop()\<close> runs while a \<^verbatim>\<open>publish\<close> is still waiting on a
  clear condition, the wait is not ended by it, and whatever turns of the background
  task and further calls of \<^verbatim>\<open>stop()\<close> follow within the window, the wait runs into
  its timeout and the publish is dropped.
\<close>

theorem stop_never_unblocks:
  assumes "\<not> snd (wait_connected ev s d l pre)" and "list_all (\<lambda>e. e \<noteq> CallStart) es"
  shows "\<not> connected_event (fst (stop (run ev s pre)))
         \<and> \<not> is_running (fst (stop (run ev s pre)))
         \<and> wait_connected ev s d l (pre @ CallStop # es) = (run ev s (pre @ CallStop # es), False)
         \<and> publish ev s d l (pre @ CallStop # es) t p qa r =
             (log ERROR PublishNotConnected (run ev s (pre @ CallStop # es)), None)"
proof -
  let ?s = "run ev s pre"
  let ?all = "pre @ CallStop # es"
  have pending: "\<not> connected_event ?s"
    using assms(1) by (rule pending_run)
  then have off: "\<not> connected_event (fst (stop ?s))" and halted: "\<not> is_running (fst (stop ?s))"
    by (simp_all add: stop_def Let_def)
  have "\<not> connected_event (run ev s (take n ?all))"
    if n: "min d (length ?all) \<le> n" "n \<le> length ?all" for n
  proof (cases "n \<le> length pre")
    case True
    with n have "min d (length pre) \<le> n" by (simp add: min_def split: if_splits)
    with True assms(1) have "\<not> connected_event (run ev s (take n pre))"
      unfolding wait_connected_iff by blast
    with True show ?thesis by simp
  next
    case False
    then obtain m where m: "n = Suc (length pre + m)"
      by (metis Suc_leI add_Suc le_Suc_ex not_le_imp_less)
    have "list_all (\<lambda>e. e \<noteq> CallStart) (take m es)"
      using assms(2) by (simp add: list_all_iff) (meson in_set_takeD)
    with halted off
    have "\<not> connected_event (run ev (fst (stop ?s)) (take m es))"
      using stopped_run by blast
    then show ?thesis by (simp add: m run_append)
  qed
  then have "\<not> snd (wait_connected ev s d l ?all)"
    unfolding wait_connected_iff by blast
  then have w: "wait_connected ev s d l ?all = (run ev s ?all, False)"
    using wait_timeout_run [of ev s d l ?all] by (simp add: prod_eq_iff)
  then have "publish ev s d l ?all t p qa r = (log ERROR PublishNotConnected (run ev s ?all), None)"
    by (simp add: publish_def)
  with off halted w show ?thesis by simp
qed

theorem stop_never_unblocks_witness:
  "\<not> snd (wait_connected demo_env started 1 1 [Tick NoPacket])
   \<and> list_all (\<lambda>e. e \<noteq> CallStart) [Tick (ConnAck 0), CallStop, Tick NoPacket]
   \<and> \<not> connected_event (fst (stop (run demo_env started [Tick NoPacket])))
   \<and> snd (wait_connected demo_env started 1 1
        ([Tick NoPacket] @ CallStop # [Tick (ConnAck 0), CallStop, Tick NoPacket])) = False
   \<and> publish demo_env started 1 1
        ([Tick NoPacket] @ CallStop # [Tick (ConnAck 0), CallStop, Tick NoPacket])
        command_topic state_on None False =
       (\<lparr>config = demo_config, connected_event = False, is_running = False,
         logged = [(INFO, Starting), (INFO, LoopStarted), (INFO, Stopping), (INFO, LoopStopped),
                   (ERROR, PublishNotConnected)],
         calls = [Connect ''broker.hivemq.com'' 1883 60, Disconnect], handled = [],
         tasks = 0, fresh = 0\<rparr>, None)"
proof -
  have h1: "\<not> snd (wait_connected demo_env started 1 1 [Tick NoPacket])"
    using pending_wait by simp
  have h2: "list_all (\<lambda>e. e \<noteq> CallStart) [Tick (ConnAck 0), CallStop, Tick NoPacket]" by simp
  note concl = stop_never_unblocks [OF h1 h2, of command_topic state_on None False]
  show ?thesis using h1 h2 concl
    by (simp only: after_stop_run) (simp add: log_def)
qed

section \<open>Publishing with a connection\<close>

lemma online_now: "wait_connected demo_env online 0 0 [] = (online, True)"
  by (simp add: wait_connected_def online_eq)

lemma woken_then_lost:
  "wait_connected demo_env started 1 1 [Tick NoPacket, Tick (ConnAck 0), Tick (ConnLost 1)] =
     (online\<lparr>connected_event := False,
        logged := [(INFO, Starting), (INFO, LoopStarted), (INFO, ConnectedTo ''broker.hivemq.com''),
                   (INFO, SubscribedTo ''flet-mqtt-demo/light/state''),
                   (INFO, SubscribedTo ''flet-mqtt-demo/light/set''),
                   (WARNING, UnexpectedDisconnect)]\<rparr>, True)"
  by (simp add: wait_connected_def started_eq online_eq tick_def enter_loop_def
      on_connect_def on_disconnect_def demo_env_def demo_config_def Let_def log_def issue_def)

lemma woken_at_once:
  "wait_connected demo_env started 0 0 [Tick (ConnAck 0), Tick (ConnLost 1)] = (online, True)"
  by (simp add: wait_connected_def started_eq online_eq tick_def enter_loop_def
      on_connect_def demo_env_def demo_config_def Let_def log_def issue_def)

lemma online_then_stopped:
  "wait_connected demo_env online 0 1 [CallStop, CallStart] =
     (online\<lparr>connected_event := False, is_running := False,
        logged := logged online @ [(INFO, Stopping)],
        calls := calls online @ [Disconnect]\<rparr>, True)"
  by (simp add: wait_connected_def online_eq stop_def Let_def log_def issue_def)

lemma set_in_window:
  "connected_event (run demo_env started (take 2 [Tick NoPacket, Tick (ConnAck 0), Tick (ConnLost 1)]))"
  by (simp add: started_eq tick_def enter_loop_def on_connect_def demo_env_def demo_config_def
      Let_def log_def issue_def)

lemma set_then_cleared:
  "wait_connected demo_env started 2 0 [Tick (ConnAck 0), CallStop] =
     (run demo_env started [Tick (ConnAck 0), CallStop], False)"
  by (simp add: wait_connected_def started_eq tick_def enter_loop_def stop_def
      on_connect_def demo_env_def demo_config_def Let_def log_def issue_def)

text \<open>
  C4, as amended. A \<^verbatim>\<open>publish\<close> whose wait finds the connected condition true, at
  its first test or after a later step of the window, and whose payload is not a
  dictionary or list that \<^verbatim>\<open>json.dumps\<close> rejects, calls the protocol client's
  \<^verbatim>\<open>publish\<close> exactly once, even if the condition is false again when it does so: with
  the QoS argument when one is given and the configured default QoS otherwise, and with
  the retain flag of the call.
\<close>

theorem publish_sends_once:
  assumes "min d (length es) \<le> n" and "n \<le> length es"
    and "connected_event (run ev s (take n es))"
    and "is_dict_or_list p \<longrightarrow> json_dumps (stack_room ev) p = Inr js"
  shows "filter is_Publish (calls (fst (publish ev s d l es t p qa r))) =
           filter is_Publish (calls s) @
             [Publish t (if is_dict_or_list p then PStr (str js) else p)
                (case qa of Some q \<Rightarrow> q | None \<Rightarrow> qos (config s)) r]
         \<and> calls (fst (publish ev s d l es t p qa r)) =
             calls (fst (wait_connected ev s d l es)) @
               [Publish t (if is_dict_or_list p then PStr (str js) else p)
                  (case qa of Some q \<Rightarrow> q | None \<Rightarrow> qos (config s)) r]"
proof -
  have in_time: "snd (wait_connected ev s d l es)"
    unfolding wait_connected_iff using assms(1-3) by blast
  have w: "(if is_dict_or_list p
        then map_sum id (\<lambda>js. PStr (str js)) (json_dumps (stack_room ev) p) else Inr p)
      = Inr (if is_dict_or_list p then PStr (str js) else p)"
    using assms(4) by simp
  have "calls (fst (publish ev s d l es t p qa r)) =
             calls (fst (wait_connected ev s d l es)) @
               [Publish t (if is_dict_or_list p then PStr (str js) else p)
                  (case qa of Some q \<Rightarrow> q | None \<Rightarrow> qos (config s)) r]"
    unfolding publish_connected [OF in_time] w
    by (simp add: Let_def split: sum.split option.split)
  moreover have "filter is_Publish (calls (fst (publish ev s d l es t p qa r))) =
           filter is_Publish (calls s) @
             [Publish t (if is_dict_or_list p then PStr (str js) else p)
                (case qa of Some q \<Rightarrow> q | None \<Rightarrow> qos (config s)) r]"
    unfolding publish_sends w using in_time by simp
  ultimately show ?thesis by simp
qed

theorem publish_sends_once_witness:
  \<open>connected_event (run demo_env online (take 0 []))
   \<and> json_dumps (stack_room demo_env) state_on = Inr ''{"state": "ON"}''
   \<and> calls (fst (publish demo_env online 0 0 [] command_topic state_on None False)) =
       calls online @ [Publish ''flet-mqtt-demo/light/set'' (PStr (str ''{"state": "ON"}'')) 0 False]
   \<and> connected_event (run demo_env started
        (take 2 [Tick NoPacket, Tick (ConnAck 0), Tick (ConnLost 1)]))
   \<and> filter is_Publish (calls (fst (publish demo_env started 1 1
         [Tick NoPacket, Tick (ConnAck 0), Tick (ConnLost 1)] command_topic (PStr (str ''ON''))
         (Some 1) True)))
       = [Publish ''flet-mqtt-demo/light/set'' (PStr (str ''ON'')) 1 True]
   \<and> \<not> connected_event (fst (publish demo_env started 1 1
         [Tick NoPacket, Tick (ConnAck 0), Tick (ConnLost 1)] command_topic (PStr (str ''ON''))
         (Some 1) True))
   \<and> connected_event (run demo_env started (take 1 [Tick (ConnAck 0), Tick (ConnLost 1)]))
   \<and> calls (fst (publish demo_env started 0 0 [Tick (ConnAck 0), Tick (ConnLost 1)]
         command_topic (PStr (str ''ON'')) None False))
       = calls online @ [Publish ''flet-mqtt-demo/light/set'' (PStr (str ''ON'')) 0 False]
   \<and> connected_event (run demo_env online (take 0 [CallStop, CallStart]))
   \<and> calls (fst (publish demo_env online 0 1 [CallStop, CallStart]
         command_topic (PStr (str ''ON'')) (Some 2) False))
       = calls online @ [Disconnect, Publish ''flet-mqtt-demo/light/set'' (PStr (str ''ON'')) 2 False]\<close>
proof -
  have room: "stack_room demo_env = 900" by (simp add: demo_env_def)
  have h1: "connected_event (run demo_env online (take 0 []))"
    by (simp add: online_eq)
  have h2: "is_dict_or_list state_on \<longrightarrow>
      json_dumps (stack_room demo_env) state_on = Inr (''{'' @ [CHR 0x22] @ ''state'' @ [CHR 0x22]
        @ '': '' @ [CHR 0x22] @ ''ON'' @ [CHR 0x22] @ ''}'')"
    using state_on_json by (simp add: room)
  have h4: "is_dict_or_list (PStr (str ''ON'')) \<longrightarrow>
      json_dumps (stack_room demo_env) (PStr (str ''ON'')) = Inr []"
    by simp
  have d: "is_dict_or_list state_on" by (simp add: state_on_def)
  have c2: \<open>json_dumps (stack_room demo_env) state_on = Inr ''{"state": "ON"}''\<close>
    using state_on_json by (simp add: room)
  have c3: \<open>calls (fst (publish demo_env online 0 0 [] command_topic state_on None False)) =
       calls online @ [Publish ''flet-mqtt-demo/light/set'' (PStr (str ''{"state": "ON"}'')) 0 False]\<close>
    using publish_sends_once [of 0 "[]" 0 demo_env online state_on _ 0 command_topic None False,
        OF _ _ h1 h2, THEN conjunct2]
    by (simp add: d online_now command_topic_def) (simp add: online_eq demo_config_def)
  have c5: "filter is_Publish (calls (fst (publish demo_env started 1 1
         [Tick NoPacket, Tick (ConnAck 0), Tick (ConnLost 1)] command_topic (PStr (str ''ON''))
         (Some 1) True)))
       = [Publish ''flet-mqtt-demo/light/set'' (PStr (str ''ON'')) 1 True]"
    using publish_sends_once [of 1 "[Tick NoPacket, Tick (ConnAck 0), Tick (ConnLost 1)]" 2
        demo_env started "PStr (str ''ON'')" _ 1 command_topic "Some 1" True,
        OF _ _ set_in_window h4, THEN conjunct1]
    by (simp add: started_eq command_topic_def)
  have in_time: "snd (wait_connected demo_env started 1 1
      [Tick NoPacket, Tick (ConnAck 0), Tick (ConnLost 1)])"
    unfolding woken_then_lost by simp
  have c6: "\<not> connected_event (fst (publish demo_env started 1 1
         [Tick NoPacket, Tick (ConnAck 0), Tick (ConnLost 1)] command_topic (PStr (str ''ON''))
         (Some 1) True))"
    unfolding publish_connected [OF in_time] woken_then_lost
    by (simp add: demo_env_def command_topic_def MQTT_ERR_SUCCESS_def Let_def)
  have h7: "connected_event (run demo_env started (take 1 [Tick (ConnAck 0), Tick (ConnLost 1)]))"
    by (simp add: started_eq tick_def enter_loop_def on_connect_def demo_env_def demo_config_def
        Let_def log_def issue_def)
  have c8: "calls (fst (publish demo_env started 0 0 [Tick (ConnAck 0), Tick (ConnLost 1)]
         command_topic (PStr (str ''ON'')) None False))
       = calls online @ [Publish ''flet-mqtt-demo/light/set'' (PStr (str ''ON'')) 0 False]"
    using publish_sends_once [of 0 "[Tick (ConnAck 0), Tick (ConnLost 1)]" 1
        demo_env started "PStr (str ''ON'')" _ 0 command_topic None False,
        OF _ _ h7 h4, THEN conjunct2]
    by (simp add: woken_at_once command_topic_def) (simp add: started_eq demo_config_def)
  have h9: "connected_event (run demo_env online (take 0 [CallStop, CallStart]))"
    by (simp add: online_eq)
  have c10: "calls (fst (publish demo_env online 0 1 [CallStop, CallStart]
         command_topic (PStr (str ''ON'')) (Some 2) False))
       = calls online @ [Disconnect, Publish ''flet-mqtt-demo/light/set'' (PStr (str ''ON'')) 2 False]"
    using publish_sends_once [of 0 "[CallStop, CallStart]" 0
        demo_env online "PStr (str ''ON'')" _ 1 command_topic "Some 2" False,
        OF _ _ h9 h4, THEN conjunct2]
    unfolding online_then_stopped by (simp add: command_topic_def)
  show ?thesis
    by (intro conjI h1 c2 c3 set_in_window c5 c6 h7 c8 h9 c10)
qed

text \<open>
  The claim as stated fails in two ways on a connected client. A \<^verbatim>\<open>stop()\<close> that
  runs before the wait first tests the event lets a \<^verbatim>\<open>publish\<close> that was called
  with the condition true run into its timeout, and so does a condition that became
  true within the window and was cleared before that test. And for a dictionary that
  \<^verbatim>\<open>json.dumps\<close> rejects, \<^verbatim>\<open>json.dumps\<close> raises before the protocol client is
  reached. No publish request is issued in any of the three.
\<close>

theorem publish_sends_once_counterexample:
  "connected_event online
   \<and> publish demo_env online 1 0 [CallStop] command_topic state_on None False =
       (log ERROR PublishNotConnected (run demo_env online [CallStop]), None)
   \<and> filter is_Publish (calls (fst (publish demo_env online 1 0 [CallStop]
        command_topic state_on None False))) = filter is_Publish (calls online)
   \<and> connected_event (run demo_env started (take 1 [Tick (ConnAck 0), CallStop]))
   \<and> filter is_Publish (calls (fst (publish demo_env started 2 0 [Tick (ConnAck 0), CallStop]
        command_topic state_on None False))) = filter is_Publish (calls started)
   \<and> is_dict_or_list state_raw
   \<and> publish demo_env online 0 0 [] command_topic state_raw None False =
       (online, Some (TypeError ''Object of type bytes is not JSON serializable''))
   \<and> filter is_Publish (calls (fst (publish demo_env online 0 0 [] command_topic state_raw
        None False))) = filter is_Publish (calls online)"
proof -
  have c1: "connected_event online" by (simp add: online_eq)
  have t1: "\<not> snd (wait_connected demo_env online 1 0 [CallStop])"
    unfolding dropped_wait by simp
  have c2: "publish demo_env online 1 0 [CallStop] command_topic state_on None False =
       (log ERROR PublishNotConnected (run demo_env online [CallStop]), None)"
    unfolding publish_timeout [OF t1] wait_timeout_run [OF t1] ..
  have c3: "filter is_Publish (calls (fst (publish demo_env online 1 0 [CallStop]
        command_topic state_on None False))) = filter is_Publish (calls online)"
    unfolding publish_sends using t1 by simp
  have c4: "connected_event (run demo_env started (take 1 [Tick (ConnAck 0), CallStop]))"
    by (simp add: started_eq tick_def enter_loop_def on_connect_def demo_env_def demo_config_def
      Let_def log_def issue_def)
  have t2: "\<not> snd (wait_connected demo_env started 2 0 [Tick (ConnAck 0), CallStop])"
    unfolding set_then_cleared by simp
  have c5: "filter is_Publish (calls (fst (publish demo_env started 2 0 [Tick (ConnAck 0), CallStop]
        command_topic state_on None False))) = filter is_Publish (calls started)"
    unfolding publish_sends using t2 by simp
  have c6: "is_dict_or_list state_raw" by (simp add: state_raw_def)
  have room: "stack_room demo_env = 900" by (simp add: demo_env_def)
  have c7: "publish demo_env online 0 0 [] command_topic state_raw None False =
       (online, Some (TypeError ''Object of type bytes is not JSON serializable''))"
    by (simp add: publish_def online_now c6 room state_raw_json)
  have c8: "filter is_Publish (calls (fst (publish demo_env online 0 0 [] command_topic state_raw
        None False))) = filter is_Publish (calls online)"
    unfolding c7 by simp
  show ?thesis
    by (intro conjI c1 c2 c3 c4 c5 c6 c7 c8)
qed

section \<open>The payload on the wire\<close>

text \<open>
  C6, as amended. What a \<^verbatim>\<open>publish\<close> that got its connection hands to the protocol
  client: for an instance of \<^verbatim>\<open>dict\<close> or of \<^verbatim>\<open>list\<close> the text \<^verbatim>\<open>json.dumps\<close>
  returns, as a string, unless \<^verbatim>\<open>json.dumps\<close> raises; for every other payload the
  payload itself, unchanged: a string or a \<^verbatim>\<open>bytes\<close> object, and also a tuple or any
  other sequence or mapping that is neither a list nor a dictionary.
\<close>

theorem publish_wire_payload:
  assumes "min d (length es) \<le> n" and "n \<le> length es"
    and "connected_event (run ev s (take n es))"
  shows "filter is_Publish (calls (fst (publish ev s d l es t p qa r))) =
           filter is_Publish (calls s) @
             (case p of
                PDict kvs \<Rightarrow>
                  (case json_dumps (stack_room ev) p of
                     Inl e \<Rightarrow> []
                   | Inr js \<Rightarrow>
                       [Publish t (PStr (str js)) (case qa of Some q \<Rightarrow> q | None \<Rightarrow> qos (config s)) r])
              | PList xs \<Rightarrow>
                  (case json_dumps (stack_room ev) p of
                     Inl e \<Rightarrow> []
                   | Inr js \<Rightarrow>
                       [Publish t (PStr (str js)) (case qa of Some q \<Rightarrow> q | None \<Rightarrow> qos (config s)) r])
              | _ \<Rightarrow> [Publish t p (case qa of Some q \<Rightarrow> q | None \<Rightarrow> qos (config s)) r])"
proof -
  have in_time: "snd (wait_connected ev s d l es)"
    unfolding wait_connected_iff using assms by blast
  show ?thesis
    unfolding publish_sends using in_time
    by (cases p) (simp_all split: sum.split)
qed

theorem publish_wire_payload_witness:
  \<open>connected_event (run demo_env online (take 0 []))
   \<and> filter is_Publish (calls (fst (publish demo_env online 0 0 [] ''x/y''
         (PDict [(KStr (str ''v''), PInt 1)]) None True)))
       = [Publish ''x/y'' (PStr (str ''{"v": 1}'')) 0 True]
   \<and> filter is_Publish (calls (fst (publish demo_env online 0 0 [] ''x/y'' rich None False)))
       = [Publish ''x/y''
            (PStr (str (''{"name": "'' @ [CHR 0x5C] @ ''"'' @ [CHR 0x5C, CHR 0x5C, CHR 0x5C] @ ''n''
               @ [CHR 0x5C] @ ''u00e9'' @ [CHR 0x5C] @ ''ud83d'' @ [CHR 0x5C] @ ''ude00''
               @ [CHR 0x5C] @ ''u0007'' @ [CHR 0x5C] @ ''u007f", ''
               @ ''"-12": [null, true, 1305, [1.5, NaN]], "false": {}, "null": []}''))) 0 False]
   \<and> filter is_Publish (calls (fst (publish demo_env online 0 0 [] ''x/y'' odd None False)))
       = [Publish ''x/y''
            (PStr (str (''{"'' @ [CHR 0x5C] @ ''b'' @ [CHR 0x5C] @ ''f'' @ [CHR 0x5C] @ ''r''
               @ [CHR 0x5C] @ ''t ~'' @ [CHR 0x5C] @ ''u001f'' @ [CHR 0x5C] @ ''u0080''
               @ [CHR 0x5C] @ ''u12ab'' @ [CHR 0x5C] @ ''uc456'' @ [CHR 0x5C] @ ''uffff''
               @ [CHR 0x5C] @ ''ud800'' @ [CHR 0x5C] @ ''udc00'' @ [CHR 0x5C] @ ''udbff''
               @ [CHR 0x5C] @ ''udfff'' @ [CHR 0x5C]
               @ ''ud800": [], "2.5": Infinity, "true": -Infinity, "NaN": false, "0": -7, "": ""}''))) 0 False]
   \<and> filter is_Publish (calls (fst (publish demo_env online 0 0 [] ''x/y'' levels None False)))
       = [Publish ''x/y'' (PStr (str ''[1, "two", [3]]'')) 0 False]
   \<and> filter is_Publish (calls (fst (publish demo_env online 0 0 [] ''x/y'' huge None False))) = []
   \<and> filter is_Publish (calls (fst (publish demo_env online 0 0 [] ''x/y''
         (PStr [0x22, 0x5C, 0x0A, 0xE9]) None False)))
       = [Publish ''x/y'' (PStr [0x22, 0x5C, 0x0A, 0xE9]) 0 False]
   \<and> filter is_Publish (calls (fst (publish demo_env online 0 0 [] ''x/y''
         (PBytes [0x4F, 0x4E]) None False)))
       = [Publish ''x/y'' (PBytes [0x4F, 0x4E]) 0 False]
   \<and> filter is_Publish (calls (fst (publish demo_env online 0 0 [] ''x/y'' pair None False)))
       = [Publish ''x/y'' pair 0 False]
   \<and> filter is_Publish (calls (fst (publish demo_env online 0 0 [] ''x/y''
         (PObject ''mappingproxy'') None False)))
       = [Publish ''x/y'' (PObject ''mappingproxy'') 0 False]\<close>
proof -
  have h: "connected_event (run demo_env online (take 0 []))"
    by (simp add: online_eq)
  have room: "stack_room demo_env = 900" by (simp add: demo_env_def)
  have q: "qos (config online) = 0" and f: "filter is_Publish (calls online) = []"
    by (simp_all add: online_eq demo_config_def)
  note sent = publish_wire_payload [of 0 "[]" 0 demo_env online 0, OF _ _ h, simplified]
  have c2: \<open>filter is_Publish (calls (fst (publish demo_env online 0 0 [] ''x/y''
         (PDict [(KStr (str ''v''), PInt 1)]) None True)))
       = [Publish ''x/y'' (PStr (str ''{"v": 1}'')) 0 True]\<close>
    unfolding sent room v1_json q f by simp
  have c3: \<open>filter is_Publish (calls (fst (publish demo_env online 0 0 [] ''x/y'' rich None False)))
       = [Publish ''x/y''
            (PStr (str (''{"name": "'' @ [CHR 0x5C] @ ''"'' @ [CHR 0x5C, CHR 0x5C, CHR 0x5C] @ ''n''
               @ [CHR 0x5C] @ ''u00e9'' @ [CHR 0x5C] @ ''ud83d'' @ [CHR 0x5C] @ ''ude00''
               @ [CHR 0x5C] @ ''u0007'' @ [CHR 0x5C] @ ''u007f", ''
               @ ''"-12": [null, true, 1305, [1.5, NaN]], "false": {}, "null": []}''))) 0 False]\<close>
    unfolding sent room rich_json q f by (simp add: rich_def)
  have c3a: \<open>filter is_Publish (calls (fst (publish demo_env online 0 0 [] ''x/y'' odd None False)))
       = [Publish ''x/y''
            (PStr (str (''{"'' @ [CHR 0x5C] @ ''b'' @ [CHR 0x5C] @ ''f'' @ [CHR 0x5C] @ ''r''
               @ [CHR 0x5C] @ ''t ~'' @ [CHR 0x5C] @ ''u001f'' @ [CHR 0x5C] @ ''u0080''
               @ [CHR 0x5C] @ ''u12ab'' @ [CHR 0x5C] @ ''uc456'' @ [CHR 0x5C] @ ''uffff''
               @ [CHR 0x5C] @ ''ud800'' @ [CHR 0x5C] @ ''udc00'' @ [CHR 0x5C] @ ''udbff''
               @ [CHR 0x5C] @ ''udfff'' @ [CHR 0x5C]
               @ ''ud800": [], "2.5": Infinity, "true": -Infinity, "NaN": false, "0": -7, "": ""}''))) 0 False]\<close>
    unfolding sent room odd_json q f by (simp add: odd_def)
  have c4: \<open>filter is_Publish (calls (fst (publish demo_env online 0 0 [] ''x/y'' levels None False)))
       = [Publish ''x/y'' (PStr (str ''[1, "two", [3]]'')) 0 False]\<close>
    unfolding sent room levels_json q f by (simp add: levels_def)
  have c5: "filter is_Publish (calls (fst (publish demo_env online 0 0 [] ''x/y'' huge None False))) = []"
    unfolding sent room huge_json q f by (simp add: huge_def)
  have c6: "filter is_Publish (calls (fst (publish demo_env online 0 0 [] ''x/y''
         (PStr [0x22, 0x5C, 0x0A, 0xE9]) None False)))
       = [Publish ''x/y'' (PStr [0x22, 0x5C, 0x0A, 0xE9]) 0 False]"
    unfolding sent q f by simp
  have c7: "filter is_Publish (calls (fst (publish demo_env online 0 0 [] ''x/y''
         (PBytes [0x4F, 0x4E]) None False)))
       = [Publish ''x/y'' (PBytes [0x4F, 0x4E]) 0 False]"
    unfolding sent q f by simp
  have c8: "filter is_Publish (calls (fst (publish demo_env online 0 0 [] ''x/y'' pair None False)))
       = [Publish ''x/y'' pair 0 False]"
    unfolding sent q f by (simp add: pair_def)
  have c9: "filter is_Publish (calls (fst (publish demo_env online 0 0 [] ''x/y''
         (PObject ''mappingproxy'') None False)))
       = [Publish ''x/y'' (PObject ''mappingproxy'') 0 False]"
    unfolding sent q f by simp
  show ?thesis
    by (intro conjI h c2 c3 c3a c4 c5 c6 c7 c8 c9)
qed

text \<open>
  The claim as stated fails for a sequence that is not a list: on a connected client
  the tuple \<^verbatim>\<open>(1, 2)\<close>, which \<^verbatim>\<open>json.dumps\<close> would write as \<^verbatim>\<open>[1, 2]\<close>, reaches
  the protocol client as the tuple it is, and the protocol client refuses it.
\<close>

theorem publish_wire_payload_counterexample:
  "connected_event online
   \<and> json_dumps (stack_room demo_env) pair = Inr ''[1, 2]''
   \<and> calls (fst (publish demo_env online 0 0 [] command_topic pair None False)) =
       calls online @ [Publish command_topic (PTuple [PInt 1, PInt 2]) 0 False]
   \<and> snd (publish demo_env online 0 0 [] command_topic pair None False) =
       Some (TypeError ''payload must be a string, bytearray, int, float or None.'')"
proof -
  have c1: "connected_event online" by (simp add: online_eq)
  have room: "stack_room demo_env = 900" by (simp add: demo_env_def)
  have c2: "json_dumps (stack_room demo_env) pair = Inr ''[1, 2]''"
    unfolding room by (rule pair_json)
  have p: "publish demo_env online 0 0 [] command_topic pair None False =
      (issue (Publish command_topic pair (qos (config online)) False) online,
       Some (TypeError ''payload must be a string, bytearray, int, float or None.''))"
  proof -
    have nd: "\<not> is_dict_or_list pair" by (simp add: pair_def)
    have cp: "client_publish demo_env command_topic pair (qos (config online)) False =
        Inl (TypeError ''payload must be a string, bytearray, int, float or None.'')"
      by (simp add: demo_env_def command_topic_def pair_def online_eq demo_config_def)
    show ?thesis
      by (simp add: publish_def online_now nd cp Let_def)
  qed
  have q: "qos (config online) = 0" by (simp add: online_eq demo_config_def)
  have c3: "calls (fst (publish demo_env online 0 0 [] command_topic pair None False)) =
       calls online @ [Publish command_topic (PTuple [PInt 1, PInt 2]) 0 False]"
    unfolding p q by (simp add: pair_def)
  have c4: "snd (publish demo_env online 0 0 [] command_topic pair None False) =
       Some (TypeError ''payload must be a string, bytearray, int, float or None.'')"
    unfolding p by simp
  show ?thesis
    by (intro conjI c1 c2 c3 c4)
qed

section \<open>What reaches the caller\<close>




end
